theory Spec2Isabelle
  imports Main "HOL-Library.Sublist"
begin

section \<open>The builtin-echo client: examples/c/builtin\_echo.c\<close>

text \<open>
  The program is one C function, \<open>main\<close>, that drives the client SDK through the
  scenario login, register user, login, connect, set credential, register function,
  create task, invoke task, get result, close. The SDK functions and the helpers of
  \<open>utils.h\<close> are not part of the file: they are parameters of the model (the record
  \<open>env\<close>), one field for each function, with the C signature written as a function
  from the arguments to the values the call hands back. Every one of them is called at
  most once with given arguments, so a function of the arguments describes whatever a
  stateful service answers in one run. A call is assumed to return.

  What the program does is recorded as a list of events (every external call with its
  arguments and its results, every line printed, with its stream) and an outcome
  (\<open>return\<close> from \<open>main\<close>, or \<open>exit\<close>).
\<close>

subsection \<open>Values\<close>

definition BUFFER_SIZE :: nat where
  "BUFFER_SIZE = 4086"

text \<open>A \<open>FrontendClient *\<close>: the null pointer, or the address of a client.\<close>

datatype ptr = NULL | Client nat

text \<open>
  A \<open>char[BUFFER_SIZE]\<close> array is the list of its bytes from index 0; the bytes after
  the end of the list are zero (so \<open>{0}\<close> and \<open>memset(.., 0, ..)\<close> give the empty
  list). \<open>c_str\<close> is the C string an array holds: the bytes before the first zero.
\<close>

type_synonym buffer = string

definition c_str :: "buffer \<Rightarrow> string" where
  "c_str b = takeWhile (\<lambda>c. c \<noteq> CHR 0x00) b"

text \<open>Writing a string and its terminating zero at the start of an array.\<close>

definition store_str :: "string \<Rightarrow> buffer \<Rightarrow> buffer" where
  "store_str s b = s @ [CHR 0x00] @ drop (length s + 1) b"

text \<open>The byte at an index of an array, for an index below \<open>BUFFER_SIZE\<close>.\<close>

definition byte_at :: "buffer \<Rightarrow> nat \<Rightarrow> char" where
  "byte_at b i = (if i < length b then b ! i else CHR 0x00)"

subsection \<open>The external functions\<close>

text \<open>
  A function that fills a caller's array through \<open>(char *buf, size_t *len)\<close> takes
  the array as it is and the capacity \<open>*len\<close>, and gives back the return code, the
  array afterwards and the new \<open>*len\<close>. A \<open>const char *\<close> argument is the C string
  it points to. \<open>teaclave_close_frontend_service\<close> takes the value of the variable
  \<open>frontend_client\<close>, which is \<open>None\<close> as long as the declaration with its
  initializer (line 92) has not been executed: in C the value is indeterminate then,
  and the model keeps the call visible as \<open>Close None\<close>; what the call returns
  for it, like every other answer, is the environment's to say.
\<close>

record env =
  login :: "string \<Rightarrow> string \<Rightarrow> buffer \<Rightarrow> nat \<Rightarrow> int \<times> buffer \<times> nat"
  user_register :: "string \<Rightarrow> string \<Rightarrow> string \<Rightarrow> string \<Rightarrow> int"
  frontend_service_address :: string
  enclave_info_path :: string
  as_root_ca_cert_path :: string
  teaclave_connect_frontend_service :: "string \<Rightarrow> string \<Rightarrow> string \<Rightarrow> ptr"
  teaclave_frontend_set_credential :: "ptr \<Rightarrow> string \<Rightarrow> string \<Rightarrow> int"
  teaclave_register_function_serialized ::
    "ptr \<Rightarrow> string \<Rightarrow> buffer \<Rightarrow> nat \<Rightarrow> int \<times> buffer \<times> nat"
  teaclave_create_task_serialized ::
    "ptr \<Rightarrow> string \<Rightarrow> buffer \<Rightarrow> nat \<Rightarrow> int \<times> buffer \<times> nat"
  teaclave_invoke_task :: "ptr \<Rightarrow> string \<Rightarrow> int"
  teaclave_get_task_result :: "ptr \<Rightarrow> string \<Rightarrow> buffer \<Rightarrow> nat \<Rightarrow> int \<times> buffer \<times> nat"
  teaclave_close_frontend_service :: "ptr option \<Rightarrow> int"

subsection \<open>Events and outcomes\<close>

datatype event =
    Stdout string
  | Stderr string
  | Login string string buffer nat int buffer nat
  | User_register string string string string int
  | Connect string string string ptr
  | Set_credential ptr string string int
  | Register_function ptr string buffer nat int buffer nat
  | Create_task ptr string buffer nat int buffer nat
  | Invoke_task ptr string int
  | Get_task_result ptr string buffer nat int buffer nat
  | Close "ptr option" int

datatype outcome = Returned int | Exited int

type_synonym run = "event list \<times> outcome"

definition emit :: "event list \<Rightarrow> run \<Rightarrow> run" where
  "emit es r = (es @ fst r, snd r)"

text \<open>
  The status the parent process sees: the low eight bits of the value returned from
  \<open>main\<close> or passed to \<open>exit\<close>.
\<close>

definition process_status :: "outcome \<Rightarrow> int" where
  "process_status out = (case out of Returned v \<Rightarrow> v mod 256 | Exited v \<Rightarrow> v mod 256)"

subsection \<open>The C library calls of the program\<close>

text \<open>\<open>isspace\<close> in the C locale.\<close>

definition isspace :: "char \<Rightarrow> bool" where
  "isspace c = (c = CHR '' '' \<or> c = CHR 0x09 \<or> c = CHR 0x0A \<or> c = CHR 0x0B \<or>
                c = CHR 0x0C \<or> c = CHR 0x0D)"

text \<open>
  The ordinary characters of a \<open>scanf\<close> format: each must be the next character of
  the input; the result is the input left, or \<open>None\<close> when the input differs or ends.
\<close>

fun match_literal :: "string \<Rightarrow> string \<Rightarrow> string option" where
  "match_literal [] inp = Some inp"
| "match_literal (f # fs) [] = None"
| "match_literal (f # fs) (c # cs) = (if f = c then match_literal fs cs else None)"

text \<open>
  The directive \<open>%<w>s\<close>: skip white space, then take characters up to the next white
  space, the end of the input or \<open>w\<close> characters; no character at all is a failure.
\<close>

definition scan_s :: "nat \<Rightarrow> string \<Rightarrow> string option" where
  "scan_s w inp =
     (let tok = take w (takeWhile (\<lambda>c. \<not> isspace c) (dropWhile isspace inp))
      in if tok = [] then None else Some tok)"

text \<open>
  \<open>sscanf(input, "<lit>%<w>s", dest)\<close>, for a format that is ordinary characters
  \<open>lit\<close> followed by one \<open>%<w>s\<close>. The program ignores what \<open>sscanf\<close> returns, so
  the model gives the destination array afterwards: unchanged when a directive fails.
\<close>

definition sscanf_literal_s :: "buffer \<Rightarrow> string \<Rightarrow> nat \<Rightarrow> buffer \<Rightarrow> buffer" where
  "sscanf_literal_s input lit w dest =
     (case match_literal lit (c_str input) of
        None \<Rightarrow> dest
      | Some rest \<Rightarrow>
          (case scan_s w rest of
             None \<Rightarrow> dest
           | Some tok \<Rightarrow> store_str tok dest))"

text \<open>
  \<open>printf\<close>-style formatting with one string argument: the first \<open>%s\<close> is replaced
  by the argument (the formats of the program have one \<open>%s\<close> and no other directive).
\<close>

fun format_s :: "string \<Rightarrow> string \<Rightarrow> string" where
  "format_s [] arg = []"
| "format_s [c] arg = [c]"
| "format_s (c # d # cs) arg =
     (if c = CHR ''%'' \<and> d = CHR ''s'' then arg @ cs else c # format_s (d # cs) arg)"

text \<open>
  \<open>snprintf(dest, n, fmt, arg)\<close>: at most \<open>n - 1\<close> characters and the terminating
  zero are written.
\<close>

definition snprintf_s :: "nat \<Rightarrow> string \<Rightarrow> string \<Rightarrow> buffer \<Rightarrow> buffer" where
  "snprintf_s n fmt arg dest = store_str (take (n - 1) (format_s fmt arg)) dest"

subsection \<open>The constants of the program\<close>

text \<open>
  The two requests are written with the macro \<open>QUOTE(x...) #x\<close>: the preprocessor
  turns the tokens into a string literal, every run of white space between two tokens
  one space, the string literals among them with their quotes and backslashes kept.
\<close>

definition register_function_request_serialized :: string where
  \<open>register_function_request_serialized =
     ''{ "request" : "register_function", "name" : "builtin-echo", '' @
     ''"description" : "Native Echo Function", "executor_type" : "builtin", '' @
     ''"public" : true, "payload" : [], '' @
     ''"arguments" : [{"key": "message", "default_value": "", "allow_overwrite": true}], '' @
     ''"inputs" : [], "outputs" : [], "user_allowlist": [], "usage_quota": -1 }''\<close>

definition function_arguments_literal :: string where
  \<open>function_arguments_literal =
     ''"{'' @ [CHR 0x5C] @ ''"message'' @ [CHR 0x5C] @ ''": '' @ [CHR 0x5C] @
     ''"Hello, Teaclave!'' @ [CHR 0x5C] @ ''"}"''\<close>

definition create_task_request_serialized :: string where
  \<open>create_task_request_serialized =
     ''{ "request" : "create_task", "function_id" : "%s", "function_arguments" : '' @
     function_arguments_literal @
     '', "executor" : "builtin", "inputs_ownership" : [], "outputs_ownership" : [] }''\<close>

definition user_id :: string where "user_id = ''test_id''"
definition user_password :: string where "user_password = ''test_password''"
definition admin_user_id :: string where "admin_user_id = ''admin''"
definition admin_user_password :: string where "admin_user_password = ''teaclave''"

definition function_id_prefix :: string where
  \<open>function_id_prefix = ''{"function_id":"''\<close>

definition task_id_prefix :: string where
  \<open>task_id_prefix = ''{"task_id":"''\<close>

definition close_failed :: string where
  "close_failed = ''[-] Failed to close the frontend service client.\<newline>''"

subsection \<open>The function main\<close>

text \<open>
  \<open>main\<close> is written top down in the source and bottom up here: each definition is
  the rest of \<open>main\<close> from one comment of the source on, with the local variables that
  are live there as arguments. \<open>goto bail\<close> is a call of \<open>bail\<close>.
\<close>

text \<open>Lines 162 to 168, the label \<open>bail\<close>.\<close>

definition bail :: "env \<Rightarrow> ptr option \<Rightarrow> run" where
  "bail e frontend_client =
     (let ret = teaclave_close_frontend_service e frontend_client
      in (Close frontend_client ret # (if ret \<noteq> 0 then [Stderr close_failed] else []),
          Exited (- 1)))"

text \<open>Lines 137 to 160: invoke the task, get its result, close, return.\<close>

definition main_invoke_task :: "env \<Rightarrow> ptr \<Rightarrow> buffer \<Rightarrow> run" where
  "main_invoke_task e frontend_client task_id =
     (let ret = teaclave_invoke_task e frontend_client (c_str task_id)
      in emit [Invoke_task frontend_client (c_str task_id) ret]
        (if ret \<noteq> 0
         then emit [Stderr ''[-] Failed to invoke the task.\<newline>'']
                (bail e (Some frontend_client))
         else
           (case teaclave_get_task_result e frontend_client (c_str task_id) [] BUFFER_SIZE of
              (ret, task_result, task_result_len) \<Rightarrow>
                emit [Get_task_result frontend_client (c_str task_id) [] BUFFER_SIZE
                        ret task_result task_result_len]
                  (if ret \<noteq> 0
                   then emit [Stderr ''[-] Failed to get the task result.\<newline>'']
                          (bail e (Some frontend_client))
                   else
                     emit [Stdout (format_s ''[+] Task result in string: %s\<newline>''
                                     (c_str task_result))]
                       (let ret = teaclave_close_frontend_service e (Some frontend_client)
                        in (Close (Some frontend_client) ret #
                              (if ret \<noteq> 0 then [Stderr close_failed] else []),
                            Returned ret))))))"

text \<open>
  Lines 121 to 135: build the request, create the task, parse the task id. The
  capacity passed is the variable \<open>serialized_response_len\<close> as the registration left
  it; the array \<open>serialized_response\<close> has been zeroed.
\<close>

definition main_create_task :: "env \<Rightarrow> ptr \<Rightarrow> buffer \<Rightarrow> nat \<Rightarrow> run" where
  "main_create_task e frontend_client function_id serialized_response_len =
     (let serialized_request =
            snprintf_s BUFFER_SIZE create_task_request_serialized (c_str function_id) []
      in case teaclave_create_task_serialized e frontend_client (c_str serialized_request)
                [] serialized_response_len of
           (ret, serialized_response, serialized_response_len') \<Rightarrow>
             emit [Create_task frontend_client (c_str serialized_request) []
                     serialized_response_len ret serialized_response serialized_response_len']
               (if ret \<noteq> 0
                then emit [Stderr ''[-] Failed to create a task.\<newline>'']
                       (bail e (Some frontend_client))
                else
                  (let task_id = sscanf_literal_s serialized_response task_id_prefix 41 []
                   in emit [Stdout (format_s ''[+] task_id: %s\<newline>'' (c_str task_id))]
                        (main_invoke_task e frontend_client task_id))))"

text \<open>Lines 108 to 119: register the function, parse the function id.\<close>

definition main_register_function :: "env \<Rightarrow> ptr \<Rightarrow> run" where
  "main_register_function e frontend_client =
     (case teaclave_register_function_serialized e frontend_client
             register_function_request_serialized [] BUFFER_SIZE of
        (ret, serialized_response, serialized_response_len) \<Rightarrow>
          emit [Register_function frontend_client register_function_request_serialized []
                  BUFFER_SIZE ret serialized_response serialized_response_len]
            (if ret \<noteq> 0
             then emit [Stderr ''[-] Failed to register the function.\<newline>'']
                    (bail e (Some frontend_client))
             else
               (let function_id =
                      sscanf_literal_s serialized_response function_id_prefix 45 []
                in emit [Stdout (format_s ''[+] function_id: %s\<newline>'' (c_str function_id))]
                     (main_create_task e frontend_client function_id
                        serialized_response_len))))"

text \<open>Lines 90 to 106: connect to the frontend service, set the credential.\<close>

definition main_connect :: "env \<Rightarrow> buffer \<Rightarrow> run" where
  "main_connect e token =
     emit [Stdout ''connect frontend service\<newline>'']
       (let frontend_client =
              teaclave_connect_frontend_service e (frontend_service_address e)
                (enclave_info_path e) (as_root_ca_cert_path e)
        in emit [Connect (frontend_service_address e) (enclave_info_path e)
                   (as_root_ca_cert_path e) frontend_client]
             (if frontend_client = NULL
              then emit [Stderr ''[-] Failed to connect to the frontend service.\<newline>'']
                     (bail e (Some frontend_client))
              else
                emit [Stdout ''set crendential\<newline>'']
                  (let ret = teaclave_frontend_set_credential e frontend_client user_id
                               (c_str token)
                   in emit [Set_credential frontend_client user_id (c_str token) ret]
                        (if ret \<noteq> 0
                         then emit [Stderr ''[-] Failed to set credential.\<newline>'']
                                (bail e (Some frontend_client))
                         else main_register_function e frontend_client))))"

text \<open>
  Lines 53 to 88: log in as the administrator, register the user, log in as the user
  (\<open>token'\<close> is the array \<open>token\<close> after the second login).
  Both \<open>goto bail\<close> here jump over the declaration of \<open>frontend_client\<close>.
\<close>

definition main :: "env \<Rightarrow> run" where
  "main e =
     emit [Stdout ''[+] Registering\<newline>'']
       (case login e admin_user_id admin_user_password [] BUFFER_SIZE of
          (ret, token, token_len) \<Rightarrow>
            emit [Login admin_user_id admin_user_password [] BUFFER_SIZE ret token token_len]
              (if ret \<noteq> 0
               then emit [Stderr ''[-] Failed to login.\<newline>''] (bail e None)
               else
                 (let ret = user_register e admin_user_id (c_str token) user_id user_password
                  in emit (User_register admin_user_id (c_str token) user_id user_password ret #
                            (if ret \<noteq> 0
                             then [Stderr ''[-] Failed to register. Ignore.\<newline>'']
                             else []))
                       (emit [Stdout ''[+] Login\<newline>'']
                          (case login e user_id user_password token BUFFER_SIZE of
                             (ret, token', token_len) \<Rightarrow>
                               emit [Login user_id user_password token BUFFER_SIZE
                                       ret token' token_len]
                                 (if ret \<noteq> 0
                                  then emit [Stderr ''[-] Failed to login.\<newline>'']
                                         (bail e None)
                                  else main_connect e token'))))))"

subsection \<open>Properties of runs, as checks on the list of events\<close>

text \<open>
  The task lifecycle as the client drives it. \<open>Created\<close> holds the response of the
  successful \<open>create_task\<close> call, \<open>Running\<close> the task id passed to the successful
  \<open>invoke_task\<close> call. A step is refused (\<open>None\<close>) when a lifecycle call comes out
  of order, a second time, with another task id than the one parsed from the
  response, or after a lifecycle call has failed; after a failure only diagnostics
  and the close call may follow.
\<close>

datatype lifecycle = No_task | Created buffer | Running string | Finished | Aborted

fun cleanup_event :: "event \<Rightarrow> bool" where
  "cleanup_event (Stderr msg) = True"
| "cleanup_event (Close h ret) = True"
| "cleanup_event ev = False"

definition lifecycle_step :: "lifecycle \<Rightarrow> event \<Rightarrow> lifecycle option" where
  "lifecycle_step s ev =
     (case ev of
        Create_task p req b n ret resp n' \<Rightarrow>
          (case s of
             No_task \<Rightarrow> Some (if ret = 0 then Created resp else Aborted)
           | _ \<Rightarrow> None)
      | Invoke_task p tid ret \<Rightarrow>
          (case s of
             Created resp \<Rightarrow>
               (if tid = c_str (sscanf_literal_s resp task_id_prefix 41 [])
                then Some (if ret = 0 then Running tid else Aborted) else None)
           | _ \<Rightarrow> None)
      | Get_task_result p tid' b n ret res n' \<Rightarrow>
          (case s of
             Running tid \<Rightarrow>
               (if tid' = tid then Some (if ret = 0 then Finished else Aborted) else None)
           | _ \<Rightarrow> None)
      | _ \<Rightarrow>
          (case s of
             Aborted \<Rightarrow> (if cleanup_event ev then Some Aborted else None)
           | _ \<Rightarrow> Some s))"

fun lifecycle_run :: "lifecycle \<Rightarrow> event list \<Rightarrow> lifecycle option" where
  "lifecycle_run s [] = Some s"
| "lifecycle_run s (ev # evs) =
     (case lifecycle_step s ev of None \<Rightarrow> None | Some s' \<Rightarrow> lifecycle_run s' evs)"

definition lifecycle_ok :: "event list \<Rightarrow> bool" where
  "lifecycle_ok evs = (lifecycle_run No_task evs \<noteq> None)"

text \<open>
  Credentials: the state is the list of connections on which \<open>set_credential\<close> has
  returned success; a function or task operation on another connection is refused.
\<close>

fun credential_step :: "ptr list \<Rightarrow> event \<Rightarrow> ptr list option" where
  "credential_step cs (Set_credential p u t ret) = Some (if ret = 0 then p # cs else cs)"
| "credential_step cs (Register_function p req b n ret resp n') =
     (if p \<in> set cs then Some cs else None)"
| "credential_step cs (Create_task p req b n ret resp n') =
     (if p \<in> set cs then Some cs else None)"
| "credential_step cs (Invoke_task p tid ret) = (if p \<in> set cs then Some cs else None)"
| "credential_step cs (Get_task_result p tid b n ret res n') =
     (if p \<in> set cs then Some cs else None)"
| "credential_step cs ev = Some cs"

fun credential_run :: "ptr list \<Rightarrow> event list \<Rightarrow> ptr list option" where
  "credential_run cs [] = Some cs"
| "credential_run cs (ev # evs) =
     (case credential_step cs ev of None \<Rightarrow> None | Some cs' \<Rightarrow> credential_run cs' evs)"

definition credential_gated :: "event list \<Rightarrow> bool" where
  "credential_gated evs = (credential_run [] evs \<noteq> None)"

text \<open>
  Failures. \<open>fatal_failure\<close> is a failed call that the program answers with
  \<open>goto bail\<close>; \<open>call_failed\<close> is any failed call.
\<close>

fun fatal_failure :: "event \<Rightarrow> bool" where
  "fatal_failure (Login u p b n ret b' n') = (ret \<noteq> 0)"
| "fatal_failure (Connect a i c p) = (p = NULL)"
| "fatal_failure (Set_credential p u t ret) = (ret \<noteq> 0)"
| "fatal_failure (Register_function p req b n ret resp n') = (ret \<noteq> 0)"
| "fatal_failure (Create_task p req b n ret resp n') = (ret \<noteq> 0)"
| "fatal_failure (Invoke_task p tid ret) = (ret \<noteq> 0)"
| "fatal_failure (Get_task_result p tid b n ret res n') = (ret \<noteq> 0)"
| "fatal_failure ev = False"

fun call_failed :: "event \<Rightarrow> bool" where
  "call_failed (User_register a t u p ret) = (ret \<noteq> 0)"
| "call_failed (Close h ret) = (ret \<noteq> 0)"
| "call_failed ev = fatal_failure ev"

fun is_user_register :: "event \<Rightarrow> bool" where
  "is_user_register (User_register a t u p ret) = True"
| "is_user_register ev = False"

text \<open>
  What follows a fatal failure: its diagnostic on the error stream, the close call,
  the diagnostic of the close call when that failed, and \<open>exit(-1)\<close>.
\<close>

fun cleanup :: "event list \<Rightarrow> outcome \<Rightarrow> bool" where
  "cleanup [Stderr msg, Close h ret] out = (ret = 0 \<and> out = Exited (- 1))"
| "cleanup [Stderr msg, Close h ret, Stderr msg'] out =
     (ret \<noteq> 0 \<and> msg' = close_failed \<and> out = Exited (- 1))"
| "cleanup evs out = False"

fun failure_handled :: "event list \<Rightarrow> outcome \<Rightarrow> bool" where
  "failure_handled [] out = True"
| "failure_handled (ev # evs) out =
     (if fatal_failure ev then cleanup evs out else failure_handled evs out)"

text \<open>
  What follows a failed call that ends the scenario: no further call but the close
  call, and a run that does not end with status 0.
\<close>

fun failures_abort :: "event list \<Rightarrow> outcome \<Rightarrow> bool" where
  "failures_abort [] out = True"
| "failures_abort (ev # evs) out =
     (if call_failed ev \<and> \<not> is_user_register ev
      then list_all cleanup_event evs \<and> out \<noteq> Returned 0
      else failures_abort evs out)"

text \<open>The external function an event is a call of; \<open>Print\<close> for a line of output.\<close>

datatype kind =
    Print | Call_login | Call_user_register | Call_connect | Call_set_credential
  | Call_register_function | Call_create_task | Call_invoke_task | Call_get_task_result
  | Call_close

fun kind_of :: "event \<Rightarrow> kind" where
  "kind_of (Stdout s) = Print"
| "kind_of (Stderr s) = Print"
| "kind_of (Login u p b n ret b' n') = Call_login"
| "kind_of (User_register a t u p ret) = Call_user_register"
| "kind_of (Connect a i c p) = Call_connect"
| "kind_of (Set_credential p u t ret) = Call_set_credential"
| "kind_of (Register_function p req b n ret resp n') = Call_register_function"
| "kind_of (Create_task p req b n ret resp n') = Call_create_task"
| "kind_of (Invoke_task p tid ret) = Call_invoke_task"
| "kind_of (Get_task_result p tid b n ret res n') = Call_get_task_result"
| "kind_of (Close h ret) = Call_close"

text \<open>
  The values passed to \<open>teaclave_close_frontend_service\<close> in a run, and the pointers
  that \<open>teaclave_connect_frontend_service\<close> returned, in the order of the calls.
\<close>

fun closed_handles :: "event list \<Rightarrow> ptr option list" where
  "closed_handles [] = []"
| "closed_handles (Close h ret # evs) = h # closed_handles evs"
| "closed_handles (ev # evs) = closed_handles evs"

fun connected_handles :: "event list \<Rightarrow> ptr list" where
  "connected_handles [] = []"
| "connected_handles (Connect a i c p # evs) = p # connected_handles evs"
| "connected_handles (ev # evs) = connected_handles evs"

subsection \<open>Environments to run the program in\<close>

text \<open>A service that answers every call with success, and an echo of the message.\<close>

definition echo_env :: env where
  \<open>echo_env =
     \<lparr> login = (\<lambda>u p b n. (0, ''token-of-'' @ u, 9 + length u)),
       user_register = (\<lambda>a t u p. 0),
       frontend_service_address = ''localhost:7777'',
       enclave_info_path = ''enclave_info.toml'',
       as_root_ca_cert_path = ''ias_root_ca_cert.pem'',
       teaclave_connect_frontend_service = (\<lambda>a i c. Client 1),
       teaclave_frontend_set_credential = (\<lambda>p u t. 0),
       teaclave_register_function_serialized =
         (\<lambda>p req b n.
            (0, ''{"function_id":"function-00000000-0000-0000-0000-000000000001"}'', 63)),
       teaclave_create_task_serialized =
         (\<lambda>p req b n. (0, ''{"task_id":"task-00000000-0000-0000-0000-000000000002"}'', 55)),
       teaclave_invoke_task = (\<lambda>p t. 0),
       teaclave_get_task_result = (\<lambda>p t b n. (0, ''Hello, Teaclave!'', 16)),
       teaclave_close_frontend_service = (\<lambda>h. if h = Some (Client 1) then 0 else 1) \<rparr>\<close>

text \<open>The same service when the administrator cannot log in.\<close>

definition admin_login_fails_env :: env where
  "admin_login_fails_env =
     echo_env \<lparr> login := (\<lambda>u p b n. if u = admin_user_id then (1, b, n)
                                     else login echo_env u p b n) \<rparr>"

text \<open>The same service when the user of the example exists already.\<close>

definition user_exists_env :: env where
  "user_exists_env = echo_env \<lparr> user_register := (\<lambda>a t u p. 1) \<rparr>"

text \<open>The same service when the frontend cannot be reached.\<close>

definition connect_fails_env :: env where
  "connect_fails_env = echo_env \<lparr> teaclave_connect_frontend_service := (\<lambda>a i c. NULL) \<rparr>"

text \<open>The same service when the task cannot be created.\<close>

definition create_fails_env :: env where
  "create_fails_env =
     echo_env \<lparr> teaclave_create_task_serialized := (\<lambda>p req b n. (1, b, n)) \<rparr>"

text \<open>The same service when its responses are not the ones the client scans for.\<close>

definition other_format_env :: env where
  \<open>other_format_env =
     echo_env \<lparr> teaclave_register_function_serialized :=
                   (\<lambda>p req b n. (0, ''{ "function_id": "function-1" }'', 31)),
                 teaclave_create_task_serialized :=
                   (\<lambda>p req b n. (0, ''{ "task_id": "task-2" }'', 23)) \<rparr>\<close>

section \<open>The platform, as the specification describes it\<close>

subsection \<open>Closing a session connection\<close>

text \<open>
  Modelled from the spec: \<open>teaclave_close_frontend_service\<close> of the client SDK, which
  is declared in \<open>teaclave_client_sdk.h\<close> and is not in this file. The specification
  (4.2 and 8): closing releases the channel; closing a connection twice, or closing a
  connection that failed to open, reports failure and returns control to the caller.
  The state is the list of the clients that are open; the result is the return code
  (0 for success) and the clients open afterwards.
\<close>

definition close_frontend_service_spec :: "nat list \<Rightarrow> ptr \<Rightarrow> int \<times> nat list" where
  "close_frontend_service_spec opened h =
     (case h of
        NULL \<Rightarrow> (1, opened)
      | Client c \<Rightarrow> if c \<in> set opened then (0, removeAll c opened) else (1, opened))"

subsection \<open>Function registry, task lifecycle and the echo function\<close>

text \<open>
  Modelled from the spec: the function registry, the task lifecycle and the builtin
  echo function of the platform, which the client reaches through the frontend service
  and which are not in this file. The specification (3, 4.3, 4.4 and 8): a function
  descriptor carries an ordered argument specification; a task is created for a
  function id with arguments, which are checked against the argument specification
  (an argument may replace a default only where \<open>allow_overwrite\<close> holds); a task goes
  from created to running when it is invoked and finishes asynchronously; its result is
  available only when it has finished; the echo function gives back its argument
  \<open>message\<close>. Identifiers are opaque: here, positions in the registry and in the task
  list. Users, ownership and quotas are left out.
\<close>

record argument_spec =
  key :: string
  default_value :: string
  allow_overwrite :: bool

record function_descriptor =
  name :: string
  description :: string
  executor_type :: string
  is_public :: bool
  arguments :: "argument_spec list"
  usage_quota :: int

datatype task_status = CREATED | RUNNING | FINISHED

datatype platform_error =
  RegistrationError | TaskCreationError | InvocationError | ResultNotReady | TaskError

record task =
  task_function :: function_descriptor
  task_arguments :: "(string \<times> string) list"
  task_status :: task_status
  task_result :: "platform_error + string"

record platform =
  registered_functions :: "function_descriptor list"
  tasks :: "task list"

text \<open>
  Modelled from the spec: \<open>register_function\<close> of the function registry (4.3),
  which is not in this file. It fails for an executor type the platform does not know
  and gives a new function id otherwise.
\<close>

definition register_function ::
  "platform \<Rightarrow> function_descriptor \<Rightarrow> platform_error + (nat \<times> platform)" where
  "register_function pf d =
     (if executor_type d \<noteq> ''builtin'' then Inl RegistrationError
      else Inr (length (registered_functions pf),
                pf \<lparr> registered_functions := registered_functions pf @ [d] \<rparr>))"

text \<open>
  Modelled from the spec: the check of the task's arguments against the argument
  specification (4.4), which is part of the platform and not in this file. The value a
  task runs with for one argument of the specification is the default, or the value
  the task passes, where it may be overwritten.
\<close>

definition bind_argument ::
  "(string \<times> string) list \<Rightarrow> argument_spec \<Rightarrow> (string \<times> string) option" where
  "bind_argument args a =
     (case map_of args (key a) of
        None \<Rightarrow> Some (key a, default_value a)
      | Some v \<Rightarrow> if allow_overwrite a then Some (key a, v) else None)"

fun bind_arguments ::
  "(string \<times> string) list \<Rightarrow> argument_spec list \<Rightarrow> (string \<times> string) list option" where
  "bind_arguments args [] = Some []"
| "bind_arguments args (a # as) =
     (case bind_argument args a of
        None \<Rightarrow> None
      | Some kv \<Rightarrow>
          (case bind_arguments args as of None \<Rightarrow> None | Some kvs \<Rightarrow> Some (kv # kvs)))"

text \<open>
  Modelled from the spec: \<open>create_task\<close> of the task lifecycle (4.4), which is not
  in this file. It fails for an unknown function id and for arguments that the
  argument specification does not admit, and gives a new task id otherwise.
\<close>

definition create_task ::
  "platform \<Rightarrow> nat \<Rightarrow> (string \<times> string) list \<Rightarrow> platform_error + (nat \<times> platform)" where
  "create_task pf function_id args =
     (if function_id < length (registered_functions pf)
      then
        (let d = registered_functions pf ! function_id
         in if list_all (\<lambda>kv. fst kv \<in> set (map key (arguments d))) args
            then
              (case bind_arguments args (arguments d) of
                 None \<Rightarrow> Inl TaskCreationError
               | Some bound \<Rightarrow>
                   Inr (length (tasks pf),
                        pf \<lparr> tasks := tasks pf @
                               [\<lparr> task_function = d, task_arguments = bound,
                                  task_status = CREATED,
                                  task_result = Inl ResultNotReady \<rparr>] \<rparr>))
            else Inl TaskCreationError)
      else Inl TaskCreationError)"

text \<open>
  Modelled from the spec: \<open>invoke_task\<close> of the task lifecycle (4.4), which is not
  in this file. It fails for an unknown task and for a task that has been invoked, and
  sets a created task running; it does not give the result.
\<close>

definition invoke_task :: "platform \<Rightarrow> nat \<Rightarrow> platform_error + platform" where
  "invoke_task pf task_id =
     (if task_id < length (tasks pf)
      then
        (let t = tasks pf ! task_id
         in if task_status t = CREATED
            then Inr (pf \<lparr> tasks := (tasks pf) [task_id := t \<lparr> task_status := RUNNING \<rparr>] \<rparr>)
            else Inl InvocationError)
      else Inl InvocationError)"

text \<open>
  Modelled from the spec: the executor of the platform, which is not in this file. Of
  what it can run, the specification describes the echo function (8): it gives back
  its argument \<open>message\<close>.
\<close>

definition execute ::
  "function_descriptor \<Rightarrow> (string \<times> string) list \<Rightarrow> platform_error + string" where
  "execute d args =
     (if name d = ''builtin-echo''
      then (case map_of args ''message'' of None \<Rightarrow> Inl TaskError | Some m \<Rightarrow> Inr m)
      else Inl TaskError)"

text \<open>
  Modelled from the spec: the asynchronous completion of a running task (4.4), which
  happens on the platform and is not in this file.
\<close>

definition complete_task :: "platform \<Rightarrow> nat \<Rightarrow> platform" where
  "complete_task pf task_id =
     (if task_id < length (tasks pf)
      then
        (let t = tasks pf ! task_id
         in if task_status t = RUNNING
            then pf \<lparr> tasks := (tasks pf)
                        [task_id := t \<lparr> task_status := FINISHED,
                                         task_result :=
                                           execute (task_function t) (task_arguments t) \<rparr>] \<rparr>
            else pf)
      else pf)"

text \<open>
  Modelled from the spec: \<open>get_task_result\<close> of the task lifecycle (4.4 and 8),
  which is not in this file. It gives the result of a finished task, and an error for
  a task that has not finished or does not exist.
\<close>

definition get_task_result :: "platform \<Rightarrow> nat \<Rightarrow> platform_error + string" where
  "get_task_result pf task_id =
     (if task_id < length (tasks pf)
      then
        (let t = tasks pf ! task_id
         in if task_status t = FINISHED then task_result t else Inl ResultNotReady)
      else Inl TaskError)"

text \<open>
  The descriptor and the task arguments that the two requests of the program carry
  (\<open>register_function_request_serialized\<close> and the field \<open>function_arguments\<close> of
  \<open>create_task_request_serialized\<close>).
\<close>

definition echo_function :: function_descriptor where
  "echo_function =
     \<lparr> name = ''builtin-echo'', description = ''Native Echo Function'',
       executor_type = ''builtin'', is_public = True,
       arguments = [\<lparr> key = ''message'', default_value = [], allow_overwrite = True \<rparr>],
       usage_quota = - 1 \<rparr>"

definition echo_arguments :: "(string \<times> string) list" where
  "echo_arguments = [(''message'', ''Hello, Teaclave!'')]"

definition empty_platform :: platform where
  "empty_platform = \<lparr> registered_functions = [], tasks = [] \<rparr>"

section \<open>Proofs\<close>

subsection \<open>Strings and scanning\<close>

lemma fst_emit [simp]: "fst (emit es r) = es @ fst r"
  by (simp add: emit_def)

lemma snd_emit [simp]: "snd (emit es r) = snd r"
  by (simp add: emit_def)

lemma match_literal_iff: "match_literal lit s = Some rest \<longleftrightarrow> s = lit @ rest"
  by (induction lit s rule: match_literal.induct) auto

lemma match_literal_None: "match_literal lit s = None \<longleftrightarrow> \<not> prefix lit s"
  by (induction lit s rule: match_literal.induct) auto

lemma c_str_no_zero: "CHR 0x00 \<notin> set (c_str b)"
  by (auto simp: c_str_def dest: set_takeWhileD)

lemma c_str_store_str: "CHR 0x00 \<notin> set s \<Longrightarrow> c_str (store_str s b) = s"
  by (auto simp: c_str_def store_str_def takeWhile_tail takeWhile_eq_all_conv)

lemma c_str_Nil [simp]: "c_str [] = []"
  by (simp add: c_str_def)

lemma byte_at_c_str: "byte_at b (length (c_str b)) = CHR 0x00"
  using nth_length_takeWhile [of "\<lambda>c. c \<noteq> CHR 0x00" b]
  by (auto simp: byte_at_def c_str_def)

lemma scan_s_Some:
  "scan_s w inp = Some tok \<Longrightarrow>
   tok = take w (takeWhile (\<lambda>c. \<not> isspace c) (dropWhile isspace inp)) \<and> tok \<noteq> []"
  by (auto simp: scan_s_def Let_def split: if_splits)

lemma scan_s_None:
  "scan_s w inp = None \<Longrightarrow>
   take w (takeWhile (\<lambda>c. \<not> isspace c) (dropWhile isspace inp)) = []"
  by (auto simp: scan_s_def Let_def split: if_splits)

lemma set_scan: "set (take w (takeWhile P (dropWhile Q xs))) \<subseteq> set xs"
  by (auto dest!: in_set_takeD set_takeWhileD set_dropWhileD)

lemma sscanf_c_str:
  assumes "c_str input = lit @ rest"
  shows "c_str (sscanf_literal_s input lit w []) =
         take w (takeWhile (\<lambda>c. \<not> isspace c) (dropWhile isspace rest))"
proof -
  have m: "match_literal lit (c_str input) = Some rest"
    using assms by (simp add: match_literal_iff)
  have nz: "CHR 0x00 \<notin> set rest"
    using c_str_no_zero [of input] assms by auto
  show ?thesis
  proof (cases "scan_s w rest")
    case None
    then show ?thesis
      using m by (simp add: sscanf_literal_s_def scan_s_None)
  next
    case (Some tok)
    then have tok: "tok = take w (takeWhile (\<lambda>c. \<not> isspace c) (dropWhile isspace rest))"
      by (simp add: scan_s_Some)
    have "CHR 0x00 \<notin> set tok"
      using nz set_scan [of w _ isspace rest] tok by blast
    then show ?thesis
      using m Some tok by (simp add: sscanf_literal_s_def c_str_store_str)
  qed
qed

lemma sscanf_no_prefix:
  "\<not> prefix lit (c_str input) \<Longrightarrow> sscanf_literal_s input lit w dest = dest"
  by (simp add: sscanf_literal_s_def match_literal_None [symmetric])

lemma sscanf_length: "length (sscanf_literal_s input lit w []) \<le> w + 1"
  by (auto simp: sscanf_literal_s_def store_str_def split: option.splits dest!: scan_s_Some)

subsection \<open>The label bail\<close>

lemma snd_bail [simp]: "snd (bail e h) = Exited (- 1)"
  by (simp add: bail_def Let_def)

lemma fst_bail:
  "fst (bail e h) =
     Close h (teaclave_close_frontend_service e h) #
     (if teaclave_close_frontend_service e h \<noteq> 0 then [Stderr close_failed] else [])"
  by (simp add: bail_def Let_def)

subsection \<open>The task lifecycle\<close>

lemma lifecycle_bail [simp]: "lifecycle_run s (fst (bail e h)) = Some s"
  by (cases s) (simp_all add: fst_bail lifecycle_step_def)

lemma lifecycle_invoke:
  "lifecycle_run (Created resp)
     (fst (main_invoke_task e p (sscanf_literal_s resp task_id_prefix 41 []))) \<noteq> None"
  by (simp add: main_invoke_task_def Let_def lifecycle_step_def
      split: prod.splits del: not_None_eq)

lemma lifecycle_create: "lifecycle_run No_task (fst (main_create_task e p fid len)) \<noteq> None"
  by (simp add: main_create_task_def Let_def lifecycle_step_def lifecycle_invoke
      split: prod.splits del: not_None_eq)

lemma lifecycle_register: "lifecycle_run No_task (fst (main_register_function e p)) \<noteq> None"
  by (simp add: main_register_function_def Let_def lifecycle_step_def lifecycle_create
      split: prod.splits del: not_None_eq)

lemma lifecycle_connect: "lifecycle_run No_task (fst (main_connect e tok)) \<noteq> None"
  by (simp add: main_connect_def Let_def lifecycle_step_def lifecycle_register
      split: prod.splits del: not_None_eq)

text \<open>The check is not empty: it refuses the runs the claim excludes.\<close>

lemma lifecycle_refuses_invoke_first: "\<not> lifecycle_ok [Invoke_task p tid 0]"
  by (simp add: lifecycle_ok_def lifecycle_step_def)

lemma lifecycle_refuses_invoke_after_failed_create:
  "\<not> lifecycle_ok [Create_task p req b n 1 resp n', Invoke_task p tid r]"
  by (simp add: lifecycle_ok_def lifecycle_step_def)

lemma lifecycle_refuses_result_after_failed_invoke:
  "\<not> lifecycle_ok [Create_task p req b n 0 resp n',
                   Invoke_task p (c_str (sscanf_literal_s resp task_id_prefix 41 [])) 1,
                   Get_task_result p tid b' m r res m']"
  by (simp add: lifecycle_ok_def lifecycle_step_def)

lemma lifecycle_refuses_retry:
  "\<not> lifecycle_ok [Create_task p req b n 1 resp n', Create_task p req b n r resp' n'']"
  by (simp add: lifecycle_ok_def lifecycle_step_def)

text \<open>
  C1. In every run the client drives the task through create, invoke, result in this
  order: \<open>teaclave_invoke_task\<close> is called only after \<open>teaclave_create_task_serialized\<close>
  has returned 0, and with the task id scanned from its response;
  \<open>teaclave_get_task_result\<close> is called only after \<open>teaclave_invoke_task\<close> has returned
  0, with the same task id; no lifecycle call is made twice; and after a lifecycle call
  that returns non-zero nothing follows but diagnostics and the close call.
\<close>

theorem lifecycle_order: "lifecycle_ok (fst (main e))"
  unfolding lifecycle_ok_def
  by (simp add: main_def Let_def lifecycle_step_def lifecycle_connect
      split: prod.splits del: not_None_eq)

theorem lifecycle_order_witness:
  "lifecycle_ok (fst (main echo_env)) \<and> snd (main echo_env) = Returned 0 \<and>
   Invoke_task (Client 1) ''task-00000000-0000-0000-0000-000000000002'' 0
     \<in> set (fst (main echo_env)) \<and>
   Get_task_result (Client 1) ''task-00000000-0000-0000-0000-000000000002'' [] 4086 0
     ''Hello, Teaclave!'' 16 \<in> set (fst (main echo_env)) \<and>
   lifecycle_ok (fst (main create_fails_env)) \<and>
   snd (main create_fails_env) = Exited (- 1)"
  using lifecycle_order [of echo_env] lifecycle_order [of create_fails_env]
  by (simp add: main_def main_connect_def main_register_function_def main_create_task_def
      main_invoke_task_def bail_def echo_env_def create_fails_env_def admin_user_id_def
      admin_user_password_def user_id_def user_password_def BUFFER_SIZE_def Let_def
      sscanf_literal_s_def task_id_prefix_def scan_s_def isspace_def c_str_def store_str_def)

subsection \<open>Credentials\<close>

lemma credential_bail [simp]: "credential_run cs (fst (bail e h)) = Some cs"
  by (simp add: fst_bail)

lemma credential_invoke:
  "p \<in> set cs \<Longrightarrow> credential_run cs (fst (main_invoke_task e p tid)) \<noteq> None"
  by (simp add: main_invoke_task_def Let_def split: prod.splits del: not_None_eq)

lemma credential_create:
  "p \<in> set cs \<Longrightarrow> credential_run cs (fst (main_create_task e p fid len)) \<noteq> None"
  by (simp add: main_create_task_def Let_def credential_invoke
      split: prod.splits del: not_None_eq)

lemma credential_register:
  "p \<in> set cs \<Longrightarrow> credential_run cs (fst (main_register_function e p)) \<noteq> None"
  by (simp add: main_register_function_def Let_def credential_create
      split: prod.splits del: not_None_eq)

lemma credential_connect: "credential_run [] (fst (main_connect e tok)) \<noteq> None"
  by (simp add: main_connect_def Let_def credential_register
      split: prod.splits del: not_None_eq)

lemma credential_refuses_no_credential:
  "\<not> credential_gated [Connect a i c p, Register_function p req b n r resp n']"
  by (simp add: credential_gated_def)

lemma credential_refuses_failed_credential:
  "\<not> credential_gated [Set_credential p u t 1, Create_task p req b n r resp n']"
  by (simp add: credential_gated_def)

lemma credential_refuses_other_connection:
  "\<not> credential_gated [Set_credential (Client 1) u t 0, Invoke_task (Client 2) tid r]"
  by (simp add: credential_gated_def)

text \<open>
  C6. In every run, each call of \<open>teaclave_register_function_serialized\<close>,
  \<open>teaclave_create_task_serialized\<close>, \<open>teaclave_invoke_task\<close> and
  \<open>teaclave_get_task_result\<close> is made on a connection on which
  \<open>teaclave_frontend_set_credential\<close> has been called before and has returned 0.
\<close>

theorem credential_before_operations: "credential_gated (fst (main e))"
  unfolding credential_gated_def
  by (simp add: main_def Let_def credential_connect split: prod.splits del: not_None_eq)

theorem credential_before_operations_witness:
  "credential_gated (fst (main echo_env)) \<and>
   Set_credential (Client 1) ''test_id'' ''token-of-test_id'' 0 \<in> set (fst (main echo_env)) \<and>
   Get_task_result (Client 1) ''task-00000000-0000-0000-0000-000000000002'' [] 4086 0
     ''Hello, Teaclave!'' 16 \<in> set (fst (main echo_env))"
  using credential_before_operations [of echo_env]
  by (simp add: main_def main_connect_def main_register_function_def main_create_task_def
      main_invoke_task_def bail_def echo_env_def admin_user_id_def
      admin_user_password_def user_id_def user_password_def BUFFER_SIZE_def Let_def
      sscanf_literal_s_def task_id_prefix_def scan_s_def isspace_def c_str_def store_str_def)

subsection \<open>Fatal failures\<close>

lemma cleanup_bail [simp]: "cleanup (Stderr m # fst (bail e h)) out = (out = Exited (- 1))"
  by (simp add: fst_bail)

lemma handled_invoke:
  "failure_handled (fst (main_invoke_task e p tid)) (snd (main_invoke_task e p tid))"
  by (simp add: main_invoke_task_def Let_def split: prod.splits)

lemma handled_create:
  "failure_handled (fst (main_create_task e p fid len)) (snd (main_create_task e p fid len))"
  by (simp add: main_create_task_def Let_def handled_invoke split: prod.splits)

lemma handled_register:
  "failure_handled (fst (main_register_function e p)) (snd (main_register_function e p))"
  by (simp add: main_register_function_def Let_def handled_create split: prod.splits)

lemma handled_connect:
  "failure_handled (fst (main_connect e tok)) (snd (main_connect e tok))"
  by (simp add: main_connect_def Let_def handled_register)

lemma handled_main: "failure_handled (fst (main e)) (snd (main e))"
  by (simp add: main_def Let_def handled_connect split: prod.splits)

text \<open>Whatever the close call returns, a run with a fatal failure ends in \<open>exit(-1)\<close>.\<close>

lemma no_failure_bail [simp]: "\<not> list_ex fatal_failure (fst (bail e h))"
  by (simp add: fst_bail)

lemma exit_invoke:
  "list_ex fatal_failure (fst (main_invoke_task e p tid)) \<Longrightarrow>
   snd (main_invoke_task (e\<lparr>teaclave_close_frontend_service := c\<rparr>) p tid) = Exited (- 1)"
  by (auto simp: main_invoke_task_def Let_def split: prod.splits if_splits)

lemma exit_create:
  "list_ex fatal_failure (fst (main_create_task e p fid len)) \<Longrightarrow>
   snd (main_create_task (e\<lparr>teaclave_close_frontend_service := c\<rparr>) p fid len) = Exited (- 1)"
  by (auto simp: main_create_task_def Let_def exit_invoke split: prod.splits if_splits)

lemma exit_register:
  "list_ex fatal_failure (fst (main_register_function e p)) \<Longrightarrow>
   snd (main_register_function (e\<lparr>teaclave_close_frontend_service := c\<rparr>) p) = Exited (- 1)"
  by (auto simp: main_register_function_def Let_def exit_create split: prod.splits if_splits)

lemma exit_connect:
  "list_ex fatal_failure (fst (main_connect e tok)) \<Longrightarrow>
   snd (main_connect (e\<lparr>teaclave_close_frontend_service := c\<rparr>) tok) = Exited (- 1)"
  by (auto simp: main_connect_def Let_def exit_register split: if_splits)

lemma exit_main:
  "list_ex fatal_failure (fst (main e)) \<Longrightarrow>
   snd (main (e\<lparr>teaclave_close_frontend_service := c\<rparr>)) = Exited (- 1)"
  by (auto simp: main_def Let_def exit_connect split: prod.splits if_splits)

lemma handled_refuses_no_close:
  "\<not> failure_handled [Invoke_task p tid 1, Stderr m] (Exited (- 1))"
  by simp

lemma handled_refuses_status_of_close:
  "\<not> failure_handled [Invoke_task p tid 1, Stderr m, Close h 0] (Exited 0)"
  by simp

lemma handled_refuses_silent_failure:
  "\<not> failure_handled [Invoke_task p tid 1, Close h 0] (Exited (- 1))"
  by simp

text \<open>
  C3. In every run, a failed call that the program does not tolerate (a login, the
  connection, the credential, the registration of the function, the creation or the
  invocation of the task, its result) is followed by its diagnostic on the error
  stream, then by the call that closes the connection, then by the diagnostic of that
  call when it failed, also on the error stream, and then by \<open>exit(-1)\<close>: the process
  status is 255, and it is the same whatever the close call returns.
\<close>

theorem bail_on_failure:
  "failure_handled (fst (main e)) (snd (main e)) \<and>
   (list_ex fatal_failure (fst (main e)) \<longrightarrow>
      snd (main e) = Exited (- 1) \<and> process_status (snd (main e)) = 255 \<and>
      (\<forall>c. snd (main (e\<lparr>teaclave_close_frontend_service := c\<rparr>)) = Exited (- 1)))"
proof -
  have "snd (main e) = Exited (- 1)" if "list_ex fatal_failure (fst (main e))"
    using exit_main [OF that, of "teaclave_close_frontend_service e"] by simp
  then show ?thesis
    by (auto simp: handled_main exit_main process_status_def)
qed

theorem bail_on_failure_witness:
  "list_ex fatal_failure (fst (main connect_fails_env)) \<and>
   failure_handled (fst (main connect_fails_env)) (snd (main connect_fails_env)) \<and>
   snd (main connect_fails_env) = Exited (- 1) \<and>
   process_status (snd (main connect_fails_env)) = 255 \<and>
   snd (main (connect_fails_env\<lparr>teaclave_close_frontend_service := \<lambda>h. 0\<rparr>)) = Exited (- 1)"
proof -
  have f: "list_ex fatal_failure (fst (main connect_fails_env))"
    by (simp add: main_def main_connect_def bail_def connect_fails_env_def echo_env_def
        Let_def)
  show ?thesis
    using f bail_on_failure [of connect_fails_env] by blast
qed

subsection \<open>Failures that end the scenario\<close>

lemma cleanup_events_bail [simp]: "list_all cleanup_event (fst (bail e h))"
  by (simp add: fst_bail)

lemma abort_invoke:
  "failures_abort (fst (main_invoke_task e p tid)) (snd (main_invoke_task e p tid))"
  by (simp add: main_invoke_task_def Let_def split: prod.splits)

lemma abort_create:
  "failures_abort (fst (main_create_task e p fid len)) (snd (main_create_task e p fid len))"
  by (simp add: main_create_task_def Let_def abort_invoke split: prod.splits)

lemma abort_register:
  "failures_abort (fst (main_register_function e p)) (snd (main_register_function e p))"
  by (simp add: main_register_function_def Let_def abort_create split: prod.splits)

lemma abort_connect: "failures_abort (fst (main_connect e tok)) (snd (main_connect e tok))"
  by (simp add: main_connect_def Let_def abort_register)

lemma abort_main: "failures_abort (fst (main e)) (snd (main e))"
  by (simp add: main_def Let_def abort_connect split: prod.splits)

lemma abort_refuses_second_tolerated_call:
  "\<not> failures_abort [Set_credential p u t 1, Stderr m, Register_function p req b n 0 resp n']
       (Returned 0)"
  by simp

lemma abort_refuses_success_after_failure:
  "\<not> failures_abort [Close h 1, Stderr m] (Returned 0)"
  by simp

lemma no_register_bail [simp]: "\<not> list_ex is_user_register (fst (bail e h))"
  by (simp add: fst_bail)

lemma no_register_invoke: "\<not> list_ex is_user_register (fst (main_invoke_task e p tid))"
  by (simp add: main_invoke_task_def Let_def split: prod.splits)

lemma no_register_create: "\<not> list_ex is_user_register (fst (main_create_task e p fid len))"
  by (simp add: main_create_task_def Let_def no_register_invoke split: prod.splits)

lemma no_register_register: "\<not> list_ex is_user_register (fst (main_register_function e p))"
  by (simp add: main_register_function_def Let_def no_register_create split: prod.splits)

lemma no_register_connect: "\<not> list_ex is_user_register (fst (main_connect e tok))"
  by (simp add: main_connect_def Let_def no_register_register)

lemma no_register_connect_event: "User_register a t u p r \<notin> set (fst (main_connect e tok))"
  using no_register_connect [of e tok] by (auto simp: list_ex_iff)

text \<open>
  C4. In every run in which \<open>user_register\<close> is called and returns non-zero, the
  program prints that it ignores the failure and goes on to log in as the new user;
  when that login returns 0, the run goes on with the rest of the scenario (the
  connection and all that follows, lines 90 to 160) and ends as that does. Every other
  call that fails ends the scenario: in every run, after a failed call that is not
  \<open>user_register\<close> there is no further call but the one that closes the connection,
  and the run does not end with status 0.
\<close>

theorem user_register_failure_tolerated:
  "(User_register a t u p r \<in> set (fst (main e)) \<and> r \<noteq> 0 \<longrightarrow>
      (\<exists>tok n r' tok' n' rest.
         fst (main e) =
           [Stdout ''[+] Registering\<newline>'',
            Login admin_user_id admin_user_password [] BUFFER_SIZE 0 tok n,
            User_register a t u p r,
            Stderr ''[-] Failed to register. Ignore.\<newline>'',
            Stdout ''[+] Login\<newline>'',
            Login user_id user_password tok BUFFER_SIZE r' tok' n'] @ rest \<and>
         (r' = 0 \<longrightarrow> rest = fst (main_connect e tok') \<and>
                    snd (main e) = snd (main_connect e tok')))) \<and>
   failures_abort (fst (main e)) (snd (main e))"
proof -
  obtain r0 tok n where
    l1: "login e admin_user_id admin_user_password [] BUFFER_SIZE = (r0, tok, n)"
    by (cases "login e admin_user_id admin_user_password [] BUFFER_SIZE") auto
  obtain r' tok' n' where
    l2: "login e user_id user_password tok BUFFER_SIZE = (r', tok', n')"
    by (cases "login e user_id user_password tok BUFFER_SIZE") auto
  have "\<exists>rest.
          fst (main e) =
            [Stdout ''[+] Registering\<newline>'',
             Login admin_user_id admin_user_password [] BUFFER_SIZE 0 tok n,
             User_register a t u p r,
             Stderr ''[-] Failed to register. Ignore.\<newline>'',
             Stdout ''[+] Login\<newline>'',
             Login user_id user_password tok BUFFER_SIZE r' tok' n'] @ rest \<and>
          (r' = 0 \<longrightarrow> rest = fst (main_connect e tok') \<and>
                     snd (main e) = snd (main_connect e tok'))"
    if ev: "User_register a t u p r \<in> set (fst (main e))" and r: "r \<noteq> 0"
  proof -
    have r0: "r0 = 0"
      using ev l1 by (auto simp: main_def fst_bail split: if_splits)
    have eq: "a = admin_user_id \<and> t = c_str tok \<and> u = user_id \<and> p = user_password \<and>
              r = user_register e admin_user_id (c_str tok) user_id user_password"
      using ev l1 l2 r0 no_register_connect_event [of _ _ _ _ _ e tok']
      by (auto simp: main_def Let_def fst_bail split: if_splits)
    show ?thesis
      using l1 l2 r0 eq r by (simp add: main_def Let_def)
  qed
  then show ?thesis
    using abort_main by blast
qed

theorem user_register_failure_tolerated_witness:
  "User_register ''admin'' ''token-of-admin'' ''test_id'' ''test_password'' 1
     \<in> set (fst (main user_exists_env)) \<and> (1::int) \<noteq> 0 \<and>
   Login ''test_id'' ''test_password'' ''token-of-admin'' 4086 0 ''token-of-test_id'' 16
     \<in> set (fst (main user_exists_env)) \<and>
   snd (main user_exists_env) = snd (main_connect user_exists_env ''token-of-test_id'') \<and>
   snd (main user_exists_env) = Returned 0 \<and>
   failures_abort (fst (main user_exists_env)) (snd (main user_exists_env))"
proof -
  have a: "failures_abort (fst (main user_exists_env)) (snd (main user_exists_env))"
    using user_register_failure_tolerated
      [of "''admin''" "''token-of-admin''" "''test_id''" "''test_password''" 1 user_exists_env]
    by blast
  have b: "main user_exists_env =
             emit [Stdout ''[+] Registering\<newline>'',
                   Login ''admin'' ''teaclave'' [] 4086 0 ''token-of-admin'' 14,
                   User_register ''admin'' ''token-of-admin'' ''test_id'' ''test_password'' 1,
                   Stderr ''[-] Failed to register. Ignore.\<newline>'',
                   Stdout ''[+] Login\<newline>'',
                   Login ''test_id'' ''test_password'' ''token-of-admin'' 4086 0
                     ''token-of-test_id'' 16]
               (main_connect user_exists_env ''token-of-test_id'')"
    by (simp add: main_def user_exists_env_def echo_env_def admin_user_id_def
        admin_user_password_def user_id_def user_password_def BUFFER_SIZE_def Let_def
        c_str_def emit_def)
  have c: "snd (main_connect user_exists_env ''token-of-test_id'') = Returned 0"
    by (simp add: main_connect_def main_register_function_def main_create_task_def
        main_invoke_task_def user_exists_env_def echo_env_def Let_def)
  show ?thesis
    using a c by (simp add: b)
qed

subsection \<open>Which calls a part of the program makes\<close>

lemma kinds_bail [simp]: "list_all (\<lambda>ev. kind_of ev \<in> {Print, Call_close}) (fst (bail e h))"
  by (simp add: fst_bail)

lemma kinds_invoke:
  "list_all (\<lambda>ev. kind_of ev \<in> {Print, Call_close, Call_invoke_task, Call_get_task_result})
     (fst (main_invoke_task e p tid))"
  by (simp add: main_invoke_task_def Let_def fst_bail split: prod.splits)

lemma kinds_create:
  "list_all (\<lambda>ev. kind_of ev \<in> {Print, Call_close, Call_invoke_task, Call_get_task_result,
                                  Call_create_task})
     (fst (main_create_task e p fid len))"
  using kinds_invoke [of e p]
  by (auto simp: main_create_task_def Let_def fst_bail list_all_iff split: prod.splits)

lemma kinds_register:
  "list_all (\<lambda>ev. kind_of ev \<in> {Print, Call_close, Call_invoke_task, Call_get_task_result,
                                  Call_create_task, Call_register_function})
     (fst (main_register_function e p))"
  using kinds_create [of e p]
  by (auto simp: main_register_function_def Let_def fst_bail list_all_iff split: prod.splits)

lemma kinds_connect:
  "list_all (\<lambda>ev. kind_of ev \<in> {Print, Call_close, Call_invoke_task, Call_get_task_result,
                                  Call_create_task, Call_register_function,
                                  Call_set_credential, Call_connect})
     (fst (main_connect e tok))"
  using kinds_register [of e]
  by (auto simp: main_connect_def Let_def fst_bail list_all_iff)

lemma kind_in_invoke:
  "ev \<in> set (fst (main_invoke_task e p tid)) \<Longrightarrow>
   kind_of ev \<in> {Print, Call_close, Call_invoke_task, Call_get_task_result}"
  using kinds_invoke [of e p tid] by (simp add: list_all_iff)

lemma kind_in_create:
  "ev \<in> set (fst (main_create_task e p fid len)) \<Longrightarrow>
   kind_of ev \<in> {Print, Call_close, Call_invoke_task, Call_get_task_result, Call_create_task}"
  using kinds_create [of e p fid len] by (simp add: list_all_iff)

lemma kind_in_register:
  "ev \<in> set (fst (main_register_function e p)) \<Longrightarrow>
   kind_of ev \<in> {Print, Call_close, Call_invoke_task, Call_get_task_result, Call_create_task,
                 Call_register_function}"
  using kinds_register [of e p] by (simp add: list_all_iff)

lemma kind_in_connect:
  "ev \<in> set (fst (main_connect e tok)) \<Longrightarrow>
   kind_of ev \<in> {Print, Call_close, Call_invoke_task, Call_get_task_result, Call_create_task,
                 Call_register_function, Call_set_credential, Call_connect}"
  using kinds_connect [of e tok] by (simp add: list_all_iff)

subsection \<open>The calls of the registration and of the task\<close>

lemma main_reaches_register:
  assumes "ev \<in> set (fst (main e))"
    and "kind_of ev \<in> {Call_register_function, Call_create_task, Call_invoke_task,
                       Call_get_task_result}"
  shows "\<exists>p pre. fst (main e) = pre @ fst (main_register_function e p) \<and>
                 snd (main e) = snd (main_register_function e p) \<and>
                 list_all (\<lambda>ev. kind_of ev \<in> {Print, Call_login, Call_user_register,
                                                Call_connect, Call_set_credential}) pre"
proof -
  obtain r0 tok n where
    l1: "login e admin_user_id admin_user_password [] BUFFER_SIZE = (r0, tok, n)"
    by (cases "login e admin_user_id admin_user_password [] BUFFER_SIZE") auto
  obtain r' tok' n' where
    l2: "login e user_id user_password tok BUFFER_SIZE = (r', tok', n')"
    by (cases "login e user_id user_password tok BUFFER_SIZE") auto
  have r0: "r0 = 0"
    using assms l1 by (auto simp: main_def fst_bail split: if_splits)
  have r': "r' = 0"
    using assms l1 l2 r0 by (auto simp: main_def Let_def fst_bail split: if_splits)
  have m: "main e =
             emit ([Stdout ''[+] Registering\<newline>'',
                    Login admin_user_id admin_user_password [] BUFFER_SIZE 0 tok n,
                    User_register admin_user_id (c_str tok) user_id user_password
                      (user_register e admin_user_id (c_str tok) user_id user_password)] @
                   (if user_register e admin_user_id (c_str tok) user_id user_password \<noteq> 0
                    then [Stderr ''[-] Failed to register. Ignore.\<newline>''] else []) @
                   [Stdout ''[+] Login\<newline>'',
                    Login user_id user_password tok BUFFER_SIZE 0 tok' n'])
               (main_connect e tok')"
    using l1 l2 r0 r' by (simp add: main_def Let_def emit_def)
  define p where
    "p = teaclave_connect_frontend_service e (frontend_service_address e)
           (enclave_info_path e) (as_root_ca_cert_path e)"
  have ev': "ev \<in> set (fst (main_connect e tok'))"
    using assms by (auto simp: m split: if_splits)
  have p: "p \<noteq> NULL"
    using ev' assms(2) by (auto simp: main_connect_def Let_def fst_bail p_def split: if_splits)
  have c: "teaclave_frontend_set_credential e p user_id (c_str tok') = 0"
    using ev' assms(2) p
    by (auto simp: main_connect_def Let_def fst_bail p_def split: if_splits)
  have mc: "main_connect e tok' =
              emit [Stdout ''connect frontend service\<newline>'',
                    Connect (frontend_service_address e) (enclave_info_path e)
                      (as_root_ca_cert_path e) p,
                    Stdout ''set crendential\<newline>'',
                    Set_credential p user_id (c_str tok') 0]
                (main_register_function e p)"
    using p c by (simp add: main_connect_def Let_def emit_def p_def)
  show ?thesis
    by (rule exI [of _ p]) (simp add: m mc)
qed

lemma register_event_stage:
  "Register_function p rq b n r resp len \<in> set (fst (main_register_function e q)) \<Longrightarrow>
   p = q \<and> rq = register_function_request_serialized \<and> b = [] \<and> n = BUFFER_SIZE \<and>
   teaclave_register_function_serialized e q register_function_request_serialized []
     BUFFER_SIZE = (r, resp, len)"
  by (auto simp: main_register_function_def Let_def fst_bail
      split: prod.splits if_splits dest!: kind_in_create)

lemma create_event_stage:
  "Create_task p rq b n r resp len' \<in> set (fst (main_create_task e q fid len)) \<Longrightarrow>
   p = q \<and> rq = c_str (snprintf_s BUFFER_SIZE create_task_request_serialized (c_str fid) [])
   \<and> b = [] \<and> n = len \<and>
   teaclave_create_task_serialized e q rq [] len = (r, resp, len')"
  by (auto simp: main_create_task_def Let_def fst_bail
      split: prod.splits if_splits dest!: kind_in_invoke)

lemma create_event_register_stage:
  assumes "Create_task p rq b n r resp len' \<in> set (fst (main_register_function e q))"
  shows "\<exists>resp0. teaclave_register_function_serialized e q
                   register_function_request_serialized [] BUFFER_SIZE = (0, resp0, n) \<and>
                 Register_function q register_function_request_serialized [] BUFFER_SIZE
                   0 resp0 n \<in> set (fst (main_register_function e q)) \<and>
                 p = q \<and> b = []"
  using assms
  by (auto simp: main_register_function_def Let_def fst_bail
      split: prod.splits if_splits dest!: create_event_stage)

text \<open>
  C9. In every run, the capacity passed to \<open>teaclave_create_task_serialized\<close> is the
  length that \<open>teaclave_register_function_serialized\<close> wrote to
  \<open>serialized_response_len\<close> when it returned 0 (it was called with \<open>BUFFER_SIZE\<close>),
  on the same connection, and the response array passed is zeroed.
\<close>

theorem create_task_capacity:
  "Create_task p req b n r b' n' \<in> set (fst (main e)) \<longrightarrow>
     b = [] \<and>
     (\<exists>resp. Register_function p register_function_request_serialized [] BUFFER_SIZE
               0 resp n \<in> set (fst (main e))) \<and>
     (\<forall>q rq c m r0 resp0 m'.
        Register_function q rq c m r0 resp0 m' \<in> set (fst (main e)) \<longrightarrow>
        m = BUFFER_SIZE \<and> m' = n)"
proof
  assume ev: "Create_task p req b n r b' n' \<in> set (fst (main e))"
  obtain q pre where
    m: "fst (main e) = pre @ fst (main_register_function e q)" and
    pre: "list_all (\<lambda>ev. kind_of ev \<in> {Print, Call_login, Call_user_register,
                                          Call_connect, Call_set_credential}) pre"
    using main_reaches_register [OF ev] by auto
  have ev': "Create_task p req b n r b' n' \<in> set (fst (main_register_function e q))"
    using ev pre by (auto simp: m list_all_iff)
  obtain resp0 where
    r: "teaclave_register_function_serialized e q register_function_request_serialized []
          BUFFER_SIZE = (0, resp0, n)" and
    rev: "Register_function q register_function_request_serialized [] BUFFER_SIZE 0 resp0 n
            \<in> set (fst (main_register_function e q))" and
    pq: "p = q" "b = []"
    using create_event_register_stage [OF ev'] by auto
  have "m = BUFFER_SIZE \<and> m' = n"
    if "Register_function q' rq c m r0 resp1 m' \<in> set (fst (main e))"
    for q' rq c m r0 resp1 m'
  proof -
    have "Register_function q' rq c m r0 resp1 m' \<in> set (fst (main_register_function e q))"
      using that pre by (auto simp: m list_all_iff)
    then show ?thesis
      using register_event_stage [of q' rq c m r0 resp1 m' e q] r by simp
  qed
  then show "b = [] \<and>
     (\<exists>resp. Register_function p register_function_request_serialized [] BUFFER_SIZE
               0 resp n \<in> set (fst (main e))) \<and>
     (\<forall>q rq c m r0 resp0 m'.
        Register_function q rq c m r0 resp0 m' \<in> set (fst (main e)) \<longrightarrow>
        m = BUFFER_SIZE \<and> m' = n)"
    using rev pq m by auto
qed

theorem create_task_capacity_witness:
  \<open>Create_task (Client 1)
     (c_str (snprintf_s BUFFER_SIZE create_task_request_serialized
        ''function-00000000-0000-0000-0000-000000000001'' []))
     [] 63 0 ''{"task_id":"task-00000000-0000-0000-0000-000000000002"}'' 55
     \<in> set (fst (main echo_env)) \<and>
   (\<exists>resp. Register_function (Client 1) register_function_request_serialized []
              BUFFER_SIZE 0 resp 63 \<in> set (fst (main echo_env))) \<and>
   (63::nat) \<noteq> BUFFER_SIZE\<close>
proof -
  have fid: \<open>c_str (sscanf_literal_s
                ''{"function_id":"function-00000000-0000-0000-0000-000000000001"}''
                function_id_prefix 45 []) =
             ''function-00000000-0000-0000-0000-000000000001''\<close>
    by (simp add: sscanf_literal_s_def function_id_prefix_def scan_s_def isspace_def
        c_str_def store_str_def)
  have ev: \<open>Create_task (Client 1)
     (c_str (snprintf_s BUFFER_SIZE create_task_request_serialized
        ''function-00000000-0000-0000-0000-000000000001'' []))
     [] 63 0 ''{"task_id":"task-00000000-0000-0000-0000-000000000002"}'' 55
     \<in> set (fst (main echo_env))\<close>
    by (simp add: main_def main_connect_def main_register_function_def
        main_create_task_def echo_env_def Let_def fid)
  have r: "\<exists>resp. Register_function (Client 1) register_function_request_serialized []
                   BUFFER_SIZE 0 resp 63 \<in> set (fst (main echo_env))"
    using ev create_task_capacity [of "Client 1" _ "[]" 63 0 _ 55 echo_env] by blast
  show ?thesis
    using ev r by (simp add: BUFFER_SIZE_def)
qed

subsection \<open>The identifiers\<close>

lemma create_task_head:
  "\<exists>r resp' len' rest.
     fst (main_create_task e p fid len) =
       Create_task p (c_str (snprintf_s BUFFER_SIZE create_task_request_serialized
                               (c_str fid) [])) [] len r resp' len' # rest"
  by (cases "teaclave_create_task_serialized e p
               (c_str (snprintf_s BUFFER_SIZE create_task_request_serialized (c_str fid) []))
               [] len")
     (simp add: main_create_task_def Let_def)

lemma invoke_task_head:
  "\<exists>r rest. fst (main_invoke_task e p tid) = Invoke_task p (c_str tid) r # rest"
  by (simp add: main_invoke_task_def Let_def)

lemma register_then_create:
  assumes "Register_function p rq b n 0 resp len \<in> set (fst (main e))"
  shows "\<exists>r resp' len'.
           sublist
             [Register_function p rq b n 0 resp len,
              Stdout (''[+] function_id: '' @
                      c_str (sscanf_literal_s resp function_id_prefix 45 []) @ ''\<newline>''),
              Create_task p
                (c_str (snprintf_s BUFFER_SIZE create_task_request_serialized
                          (c_str (sscanf_literal_s resp function_id_prefix 45 [])) []))
                [] len r resp' len']
             (fst (main e))"
proof -
  obtain q pre where
    m: "fst (main e) = pre @ fst (main_register_function e q)" and
    pre: "list_all (\<lambda>ev. kind_of ev \<in> {Print, Call_login, Call_user_register,
                                          Call_connect, Call_set_credential}) pre"
    using main_reaches_register [OF assms] by auto
  have ev: "Register_function p rq b n 0 resp len \<in> set (fst (main_register_function e q))"
    using assms pre by (auto simp: m list_all_iff)
  have r: "p = q" "rq = register_function_request_serialized" "b = []" "n = BUFFER_SIZE"
    "teaclave_register_function_serialized e q register_function_request_serialized []
       BUFFER_SIZE = (0, resp, len)"
    using register_event_stage [OF ev] by auto
  obtain r' resp' len' rest where
    c: "fst (main_create_task e q (sscanf_literal_s resp function_id_prefix 45 []) len) =
          Create_task q
            (c_str (snprintf_s BUFFER_SIZE create_task_request_serialized
                      (c_str (sscanf_literal_s resp function_id_prefix 45 [])) []))
            [] len r' resp' len' # rest"
    using create_task_head by blast
  have "fst (main e) =
          pre @
          [Register_function p rq b n 0 resp len,
           Stdout (''[+] function_id: '' @
                   c_str (sscanf_literal_s resp function_id_prefix 45 []) @ ''\<newline>''),
           Create_task p
             (c_str (snprintf_s BUFFER_SIZE create_task_request_serialized
                       (c_str (sscanf_literal_s resp function_id_prefix 45 [])) []))
             [] len r' resp' len'] @ rest"
    using r c by (simp add: m main_register_function_def Let_def)
  then show ?thesis
    unfolding sublist_def by blast
qed

lemma create_then_invoke:
  assumes "Create_task p rq b n 0 resp len \<in> set (fst (main e))"
  shows "\<exists>r.
           sublist
             [Create_task p rq b n 0 resp len,
              Stdout (''[+] task_id: '' @
                      c_str (sscanf_literal_s resp task_id_prefix 41 []) @ ''\<newline>''),
              Invoke_task p (c_str (sscanf_literal_s resp task_id_prefix 41 [])) r]
             (fst (main e))"
proof -
  obtain q pre where
    m: "fst (main e) = pre @ fst (main_register_function e q)" and
    pre: "list_all (\<lambda>ev. kind_of ev \<in> {Print, Call_login, Call_user_register,
                                          Call_connect, Call_set_credential}) pre"
    using main_reaches_register [OF assms] by auto
  have ev: "Create_task p rq b n 0 resp len \<in> set (fst (main_register_function e q))"
    using assms pre by (auto simp: m list_all_iff)
  obtain resp0 where
    r: "teaclave_register_function_serialized e q register_function_request_serialized []
          BUFFER_SIZE = (0, resp0, n)" and pq: "p = q"
    using create_event_register_stage [OF ev] by auto
  define fid where "fid = sscanf_literal_s resp0 function_id_prefix 45 []"
  have mr: "fst (main_register_function e q) =
              [Register_function q register_function_request_serialized [] BUFFER_SIZE
                 0 resp0 n,
               Stdout (''[+] function_id: '' @ c_str fid @ ''\<newline>'')] @
              fst (main_create_task e q fid n)"
    using r by (simp add: main_register_function_def Let_def fid_def)
  have ev': "Create_task p rq b n 0 resp len \<in> set (fst (main_create_task e q fid n))"
    using ev by (auto simp: mr)
  have c: "rq = c_str (snprintf_s BUFFER_SIZE create_task_request_serialized (c_str fid) [])"
    "b = []" "teaclave_create_task_serialized e q rq [] n = (0, resp, len)"
    using create_event_stage [OF ev'] by auto
  obtain r' rest where
    i: "fst (main_invoke_task e q (sscanf_literal_s resp task_id_prefix 41 [])) =
          Invoke_task q (c_str (sscanf_literal_s resp task_id_prefix 41 [])) r' # rest"
    using invoke_task_head by blast
  have "fst (main e) =
          (pre @
           [Register_function q register_function_request_serialized [] BUFFER_SIZE
              0 resp0 n,
            Stdout (''[+] function_id: '' @ c_str fid @ ''\<newline>'')]) @
          [Create_task p rq b n 0 resp len,
           Stdout (''[+] task_id: '' @
                   c_str (sscanf_literal_s resp task_id_prefix 41 []) @ ''\<newline>''),
           Invoke_task p (c_str (sscanf_literal_s resp task_id_prefix 41 [])) r'] @ rest"
    using c i pq by (simp add: m mr main_create_task_def Let_def)
  then show ?thesis
    unfolding sublist_def by blast
qed

lemma sscanf_c_str_length: "length (c_str (sscanf_literal_s input lit w [])) \<le> w"
proof (cases "match_literal lit (c_str input)")
  case None
  then show ?thesis by (simp add: sscanf_literal_s_def)
next
  case (Some rest)
  then have "c_str input = lit @ rest" by (simp add: match_literal_iff)
  then show ?thesis by (simp add: sscanf_c_str)
qed

lemma sscanf_c_str_no_space:
  "list_all (\<lambda>c. \<not> isspace c) (c_str (sscanf_literal_s input lit w []))"
proof (cases "match_literal lit (c_str input)")
  case None
  then show ?thesis by (simp add: sscanf_literal_s_def)
next
  case (Some rest)
  then have "c_str input = lit @ rest" by (simp add: match_literal_iff)
  then show ?thesis
    by (auto simp: sscanf_c_str list_all_iff dest!: in_set_takeD set_takeWhileD)
qed

text \<open>
  C7. The function id is scanned with \<open>"{\"function_id\":\"%45s"\<close> and the task id with
  \<open>"{\"task_id\":\"%41s"\<close>, each into a zeroed array. When the response starts with the
  field prefix, the identifier stored is made of the characters that follow the prefix,
  after the white space that \<open>%s\<close> skips, up to the next white space or the end of
  the response, and at most 45 (41) of them. Whatever the response is, the identifier
  has at most 45 (41) characters, none of them white space, a zero byte follows it in
  the array, and the bytes written (at most 46, 42) fit the \<open>BUFFER_SIZE\<close> bytes of
  the array. The identifier scanned from a successful response is the one the program
  prints and passes on: the function id goes into the request that creates the task,
  the task id to \<open>teaclave_invoke_task\<close>.
\<close>

theorem identifier_parsing:
  "(c_str response = function_id_prefix @ rest \<longrightarrow>
      c_str (sscanf_literal_s response function_id_prefix 45 []) =
        take 45 (takeWhile (\<lambda>c. \<not> isspace c) (dropWhile isspace rest))) \<and>
   (c_str response = task_id_prefix @ rest \<longrightarrow>
      c_str (sscanf_literal_s response task_id_prefix 41 []) =
        take 41 (takeWhile (\<lambda>c. \<not> isspace c) (dropWhile isspace rest))) \<and>
   length (c_str (sscanf_literal_s response function_id_prefix 45 [])) \<le> 45 \<and>
   length (c_str (sscanf_literal_s response task_id_prefix 41 [])) \<le> 41 \<and>
   list_all (\<lambda>c. \<not> isspace c) (c_str (sscanf_literal_s response function_id_prefix 45 [])) \<and>
   list_all (\<lambda>c. \<not> isspace c) (c_str (sscanf_literal_s response task_id_prefix 41 [])) \<and>
   byte_at (sscanf_literal_s response function_id_prefix 45 [])
     (length (c_str (sscanf_literal_s response function_id_prefix 45 []))) = CHR 0x00 \<and>
   byte_at (sscanf_literal_s response task_id_prefix 41 [])
     (length (c_str (sscanf_literal_s response task_id_prefix 41 []))) = CHR 0x00 \<and>
   length (sscanf_literal_s response function_id_prefix 45 []) \<le> 46 \<and>
   length (sscanf_literal_s response task_id_prefix 41 []) \<le> 42 \<and>
   46 \<le> BUFFER_SIZE \<and>
   (Register_function p rq b n 0 response len \<in> set (fst (main e)) \<longrightarrow>
      (\<exists>r resp' len'.
         sublist
           [Register_function p rq b n 0 response len,
            Stdout (''[+] function_id: '' @
                    c_str (sscanf_literal_s response function_id_prefix 45 []) @ ''\<newline>''),
            Create_task p
              (c_str (snprintf_s BUFFER_SIZE create_task_request_serialized
                        (c_str (sscanf_literal_s response function_id_prefix 45 [])) []))
              [] len r resp' len']
           (fst (main e)))) \<and>
   (Create_task p rq b n 0 response len \<in> set (fst (main e)) \<longrightarrow>
      (\<exists>r.
         sublist
           [Create_task p rq b n 0 response len,
            Stdout (''[+] task_id: '' @
                    c_str (sscanf_literal_s response task_id_prefix 41 []) @ ''\<newline>''),
            Invoke_task p (c_str (sscanf_literal_s response task_id_prefix 41 [])) r]
           (fst (main e))))"
proof -
  have "length (sscanf_literal_s response function_id_prefix 45 []) \<le> 46"
    using sscanf_length [of response function_id_prefix 45] by simp
  moreover have "length (sscanf_literal_s response task_id_prefix 41 []) \<le> 42"
    using sscanf_length [of response task_id_prefix 41] by simp
  moreover have "46 \<le> BUFFER_SIZE"
    by (simp add: BUFFER_SIZE_def)
  ultimately show ?thesis
    using sscanf_c_str_length [of response function_id_prefix 45]
      sscanf_c_str_length [of response task_id_prefix 41]
      sscanf_c_str [of response function_id_prefix rest 45]
      sscanf_c_str [of response task_id_prefix rest 41]
      sscanf_c_str_no_space [of response function_id_prefix 45]
      sscanf_c_str_no_space [of response task_id_prefix 41]
      byte_at_c_str [of "sscanf_literal_s response function_id_prefix 45 []"]
      byte_at_c_str [of "sscanf_literal_s response task_id_prefix 41 []"]
      register_then_create [of p rq b n response len e]
      create_then_invoke [of p rq b n response len e]
    by blast
qed

theorem identifier_parsing_witness:
  \<open>c_str ''{"function_id":"function-00000000-0000-0000-0000-000000000001"}'' =
     function_id_prefix @ ''function-00000000-0000-0000-0000-000000000001"}'' \<and>
   c_str (sscanf_literal_s
            ''{"function_id":"function-00000000-0000-0000-0000-000000000001"}''
            function_id_prefix 45 []) =
     ''function-00000000-0000-0000-0000-000000000001'' \<and>
   c_str (sscanf_literal_s ''{"function_id":"  f-1 and more"}'' function_id_prefix 45 []) =
     ''f-1'' \<and>
   c_str (sscanf_literal_s ''{"task_id":"task-2"}'' task_id_prefix 41 []) = ''task-2"}''\<close>
proof -
  have a: \<open>c_str ''{"function_id":"function-00000000-0000-0000-0000-000000000001"}'' =
     function_id_prefix @ ''function-00000000-0000-0000-0000-000000000001"}''\<close>
    by (simp add: c_str_def function_id_prefix_def)
  have b: \<open>c_str ''{"function_id":"  f-1 and more"}'' =
     function_id_prefix @ ''  f-1 and more"}''\<close>
    by (simp add: c_str_def function_id_prefix_def)
  have c: \<open>c_str ''{"task_id":"task-2"}'' = task_id_prefix @ ''task-2"}''\<close>
    by (simp add: c_str_def task_id_prefix_def)
  show ?thesis
    using a
      identifier_parsing
        [of \<open>''{"function_id":"function-00000000-0000-0000-0000-000000000001"}''\<close>
            \<open>''function-00000000-0000-0000-0000-000000000001"}''\<close>]
      identifier_parsing [of \<open>''{"function_id":"  f-1 and more"}''\<close> \<open>''  f-1 and more"}''\<close>]
      identifier_parsing [of \<open>''{"task_id":"task-2"}''\<close> \<open>''task-2"}''\<close>]
    by (simp add: b c isspace_def)
qed

subsection \<open>Responses in another format\<close>

lemma request_with_empty_id:
  \<open>c_str (snprintf_s BUFFER_SIZE create_task_request_serialized [] []) =
     ''{ "request" : "create_task", "function_id" : "", "function_arguments" : '' @
     function_arguments_literal @
     '', "executor" : "builtin", "inputs_ownership" : [], "outputs_ownership" : [] }''\<close>
  by (simp add: snprintf_s_def store_str_def c_str_def BUFFER_SIZE_def
      create_task_request_serialized_def function_arguments_literal_def)

text \<open>
  C10. When \<open>teaclave_register_function_serialized\<close> returns 0 and the response does
  not start with \<open>{"function_id":"\<close>, the array \<open>function_id\<close> stays zeroed, and the
  next things the program does are to print an empty function id on the output stream
  and to call \<open>teaclave_create_task_serialized\<close> with the request built from the empty
  id. When \<open>teaclave_create_task_serialized\<close> returns 0 and the response does not start
  with \<open>{"task_id":"\<close>, the array \<open>task_id\<close> stays zeroed, and the next things the
  program does are to print an empty task id and to call \<open>teaclave_invoke_task\<close> with
  the empty string. Nothing is written to the error stream in between.
\<close>

theorem silent_parse_failure:
  "(Register_function p rq b n 0 resp len \<in> set (fst (main e)) \<and>
    \<not> prefix function_id_prefix (c_str resp) \<longrightarrow>
      sscanf_literal_s resp function_id_prefix 45 [] = [] \<and>
      (\<exists>r resp' len'.
         sublist
           [Register_function p rq b n 0 resp len,
            Stdout ''[+] function_id: \<newline>'',
            Create_task p
              (c_str (snprintf_s BUFFER_SIZE create_task_request_serialized [] []))
              [] len r resp' len']
           (fst (main e)))) \<and>
   (Create_task p rq b n 0 resp len \<in> set (fst (main e)) \<and>
    \<not> prefix task_id_prefix (c_str resp) \<longrightarrow>
      sscanf_literal_s resp task_id_prefix 41 [] = [] \<and>
      (\<exists>r.
         sublist
           [Create_task p rq b n 0 resp len,
            Stdout ''[+] task_id: \<newline>'',
            Invoke_task p [] r]
           (fst (main e))))"
proof -
  have "\<exists>r resp' len'.
         sublist
           [Register_function p rq b n 0 resp len,
            Stdout ''[+] function_id: \<newline>'',
            Create_task p
              (c_str (snprintf_s BUFFER_SIZE create_task_request_serialized [] []))
              [] len r resp' len']
           (fst (main e))"
    if "Register_function p rq b n 0 resp len \<in> set (fst (main e))"
      and "\<not> prefix function_id_prefix (c_str resp)"
    using register_then_create [OF that(1)] sscanf_no_prefix [OF that(2), of 45 "[]"]
    by simp
  moreover have "\<exists>r.
         sublist
           [Create_task p rq b n 0 resp len,
            Stdout ''[+] task_id: \<newline>'',
            Invoke_task p [] r]
           (fst (main e))"
    if "Create_task p rq b n 0 resp len \<in> set (fst (main e))"
      and "\<not> prefix task_id_prefix (c_str resp)"
    using create_then_invoke [OF that(1)] sscanf_no_prefix [OF that(2), of 41 "[]"]
    by simp
  ultimately show ?thesis
    using sscanf_no_prefix [of function_id_prefix resp 45 "[]"]
      sscanf_no_prefix [of task_id_prefix resp 41 "[]"]
    by blast
qed

theorem silent_parse_failure_witness:
  \<open>Register_function (Client 1) register_function_request_serialized [] 4086 0
     ''{ "function_id": "function-1" }'' 31 \<in> set (fst (main other_format_env)) \<and>
   \<not> prefix function_id_prefix (c_str ''{ "function_id": "function-1" }'') \<and>
   (\<exists>r resp' len'.
      sublist
        [Register_function (Client 1) register_function_request_serialized [] 4086 0
           ''{ "function_id": "function-1" }'' 31,
         Stdout ''[+] function_id: \<newline>'',
         Create_task (Client 1)
           (c_str (snprintf_s BUFFER_SIZE create_task_request_serialized [] []))
           [] 31 r resp' len']
        (fst (main other_format_env))) \<and>
   Invoke_task (Client 1) [] 0 \<in> set (fst (main other_format_env)) \<and>
   snd (main other_format_env) = Returned 0\<close>
proof -
  have np: \<open>\<not> prefix function_id_prefix (c_str ''{ "function_id": "function-1" }'')\<close>
    by (simp add: function_id_prefix_def c_str_def)
  have np': \<open>\<not> prefix task_id_prefix (c_str ''{ "task_id": "task-2" }'')\<close>
    by (simp add: task_id_prefix_def c_str_def)
  have ev: \<open>Register_function (Client 1) register_function_request_serialized [] 4086 0
     ''{ "function_id": "function-1" }'' 31 \<in> set (fst (main other_format_env))\<close>
    by (simp add: main_def main_connect_def main_register_function_def
        other_format_env_def echo_env_def Let_def BUFFER_SIZE_def)
  have rest: \<open>Invoke_task (Client 1) [] 0 \<in> set (fst (main other_format_env)) \<and>
   snd (main other_format_env) = Returned 0\<close>
    by (simp add: main_def main_connect_def main_register_function_def
        main_create_task_def main_invoke_task_def
        other_format_env_def echo_env_def Let_def BUFFER_SIZE_def
        sscanf_no_prefix [OF np] sscanf_no_prefix [OF np'])
  show ?thesis
    using ev np rest
      silent_parse_failure [of "Client 1" register_function_request_serialized "[]" 4086
        \<open>''{ "function_id": "function-1" }''\<close> 31 other_format_env]
    by blast
qed

subsection \<open>Closing the connection\<close>

lemma closed_handles_append [simp]:
  "closed_handles (xs @ ys) = closed_handles xs @ closed_handles ys"
  by (induction xs rule: closed_handles.induct) simp_all

lemma connected_handles_append [simp]:
  "connected_handles (xs @ ys) = connected_handles xs @ connected_handles ys"
  by (induction xs rule: connected_handles.induct) simp_all

lemma closed_bail [simp]: "closed_handles (fst (bail e h)) = [h]"
  by (simp add: fst_bail)

lemma connected_bail [simp]: "connected_handles (fst (bail e h)) = []"
  by (simp add: fst_bail)

lemma handles_invoke:
  "closed_handles (fst (main_invoke_task e p tid)) = [Some p] \<and>
   connected_handles (fst (main_invoke_task e p tid)) = []"
  by (simp add: main_invoke_task_def Let_def split: prod.splits)

lemma handles_create:
  "closed_handles (fst (main_create_task e p fid len)) = [Some p] \<and>
   connected_handles (fst (main_create_task e p fid len)) = []"
  by (simp add: main_create_task_def Let_def handles_invoke split: prod.splits)

lemma handles_register:
  "closed_handles (fst (main_register_function e p)) = [Some p] \<and>
   connected_handles (fst (main_register_function e p)) = []"
  by (simp add: main_register_function_def Let_def handles_create split: prod.splits)

lemma handles_connect:
  "\<exists>p. closed_handles (fst (main_connect e tok)) = [Some p] \<and>
        connected_handles (fst (main_connect e tok)) = [p]"
  by (simp add: main_connect_def Let_def handles_register)

text \<open>
  In every run the connection is closed exactly once. The value passed is the pointer
  that \<open>teaclave_connect_frontend_service\<close> returned (null when it failed) if the run
  got that far, and the variable as it is before its initializer has run otherwise.
\<close>

lemma closed_once:
  "closed_handles (fst (main e)) =
     (case connected_handles (fst (main e)) of [] \<Rightarrow> [None] | p # ps \<Rightarrow> [Some p])"
proof -
  obtain r0 tok n where
    l1: "login e admin_user_id admin_user_password [] BUFFER_SIZE = (r0, tok, n)"
    by (cases "login e admin_user_id admin_user_password [] BUFFER_SIZE") auto
  obtain r' tok' n' where
    l2: "login e user_id user_password tok BUFFER_SIZE = (r', tok', n')"
    by (cases "login e user_id user_password tok BUFFER_SIZE") auto
  obtain p where
    "closed_handles (fst (main_connect e tok')) = [Some p]"
    "connected_handles (fst (main_connect e tok')) = [p]"
    using handles_connect by blast
  then show ?thesis
    using l1 l2 by (simp add: main_def Let_def)
qed

lemma main_reaches_connect:
  assumes "ev \<in> set (fst (main e))" and "kind_of ev = Call_connect"
  shows "\<exists>tok pre. fst (main e) = pre @ fst (main_connect e tok) \<and>
                   snd (main e) = snd (main_connect e tok) \<and>
                   list_all (\<lambda>ev. kind_of ev \<in> {Print, Call_login, Call_user_register}) pre"
proof -
  obtain r0 tok n where
    l1: "login e admin_user_id admin_user_password [] BUFFER_SIZE = (r0, tok, n)"
    by (cases "login e admin_user_id admin_user_password [] BUFFER_SIZE") auto
  obtain r' tok' n' where
    l2: "login e user_id user_password tok BUFFER_SIZE = (r', tok', n')"
    by (cases "login e user_id user_password tok BUFFER_SIZE") auto
  have r0: "r0 = 0"
    using assms l1 by (auto simp: main_def fst_bail split: if_splits)
  have r': "r' = 0"
    using assms l1 l2 r0 by (auto simp: main_def Let_def fst_bail split: if_splits)
  have "fst (main e) =
          ([Stdout ''[+] Registering\<newline>'',
            Login admin_user_id admin_user_password [] BUFFER_SIZE 0 tok n,
            User_register admin_user_id (c_str tok) user_id user_password
              (user_register e admin_user_id (c_str tok) user_id user_password)] @
           (if user_register e admin_user_id (c_str tok) user_id user_password \<noteq> 0
            then [Stderr ''[-] Failed to register. Ignore.\<newline>''] else []) @
           [Stdout ''[+] Login\<newline>'',
            Login user_id user_password tok BUFFER_SIZE 0 tok' n']) @
          fst (main_connect e tok') \<and>
        snd (main e) = snd (main_connect e tok')"
    using l1 l2 r0 r' by (simp add: main_def Let_def)
  then show ?thesis
    by (intro exI [of _ tok'] exI [of _ "[Stdout ''[+] Registering\<newline>'',
            Login admin_user_id admin_user_password [] BUFFER_SIZE 0 tok n,
            User_register admin_user_id (c_str tok) user_id user_password
              (user_register e admin_user_id (c_str tok) user_id user_password)] @
           (if user_register e admin_user_id (c_str tok) user_id user_password \<noteq> 0
            then [Stderr ''[-] Failed to register. Ignore.\<newline>''] else []) @
           [Stdout ''[+] Login\<newline>'',
            Login user_id user_password tok BUFFER_SIZE 0 tok' n']"]) simp
qed

lemma failed_connect_stage:
  assumes "Connect a i c NULL \<in> set (fst (main_connect e tok))"
  shows "main_connect e tok =
           ([Stdout ''connect frontend service\<newline>'', Connect a i c NULL,
             Stderr ''[-] Failed to connect to the frontend service.\<newline>'',
             Close (Some NULL) (teaclave_close_frontend_service e (Some NULL))] @
            (if teaclave_close_frontend_service e (Some NULL) \<noteq> 0
             then [Stderr close_failed] else []),
            Exited (- 1))"
  using assms
  by (auto simp: main_connect_def Let_def bail_def emit_def
      split: if_splits dest!: kind_in_register)

lemma close_spec_null: "close_frontend_service_spec opened NULL = (1, opened)"
  by (simp add: close_frontend_service_spec_def)

lemma close_spec_twice:
  "fst (close_frontend_service_spec
          (snd (close_frontend_service_spec opened (Client c))) (Client c)) = 1"
  by (simp add: close_frontend_service_spec_def)

lemma close_spec_open:
  "c \<in> set opened \<Longrightarrow>
   close_frontend_service_spec opened (Client c) = (0, removeAll c opened)"
  by (simp add: close_frontend_service_spec_def)

text \<open>
  C5. Let \<open>teaclave_close_frontend_service\<close> answer a null pointer as the specification
  says (it reports failure and returns). Then every run in which
  \<open>teaclave_connect_frontend_service\<close> returns the null pointer ends like this: the
  diagnostic of the connection on the error stream, the close call on the null
  pointer, which returns 1 to \<open>main\<close>, the diagnostic of the close call on the error
  stream, and \<open>exit(-1)\<close> by the program itself.
\<close>

theorem close_after_failed_connect:
  "teaclave_close_frontend_service e (Some NULL) =
     fst (close_frontend_service_spec opened NULL) \<and>
   Connect a i c NULL \<in> set (fst (main e)) \<longrightarrow>
     suffix [Connect a i c NULL,
             Stderr ''[-] Failed to connect to the frontend service.\<newline>'',
             Close (Some NULL) 1,
             Stderr close_failed]
       (fst (main e)) \<and>
     snd (main e) = Exited (- 1)"
proof
  assume h: "teaclave_close_frontend_service e (Some NULL) =
               fst (close_frontend_service_spec opened NULL) \<and>
             Connect a i c NULL \<in> set (fst (main e))"
  then have cl: "teaclave_close_frontend_service e (Some NULL) = 1"
    by (simp add: close_spec_null)
  obtain tok pre where
    m: "fst (main e) = pre @ fst (main_connect e tok)"
       "snd (main e) = snd (main_connect e tok)" and
    pre: "list_all (\<lambda>ev. kind_of ev \<in> {Print, Call_login, Call_user_register}) pre"
    using main_reaches_connect [of "Connect a i c NULL" e] h by auto
  have "Connect a i c NULL \<in> set (fst (main_connect e tok))"
    using h pre by (auto simp: m list_all_iff)
  then have "main_connect e tok =
           ([Stdout ''connect frontend service\<newline>'', Connect a i c NULL,
             Stderr ''[-] Failed to connect to the frontend service.\<newline>'',
             Close (Some NULL) 1, Stderr close_failed],
            Exited (- 1))"
    using failed_connect_stage [of a i c e tok] cl by simp
  then have "fst (main e) =
               (pre @ [Stdout ''connect frontend service\<newline>'']) @
               [Connect a i c NULL,
                Stderr ''[-] Failed to connect to the frontend service.\<newline>'',
                Close (Some NULL) 1, Stderr close_failed] \<and>
             snd (main e) = Exited (- 1)"
    by (simp add: m)
  then show "suffix [Connect a i c NULL,
             Stderr ''[-] Failed to connect to the frontend service.\<newline>'',
             Close (Some NULL) 1,
             Stderr close_failed]
       (fst (main e)) \<and>
     snd (main e) = Exited (- 1)"
    unfolding suffix_def by blast
qed

theorem close_after_failed_connect_witness:
  "teaclave_close_frontend_service connect_fails_env (Some NULL) =
     fst (close_frontend_service_spec [] NULL) \<and>
   Connect ''localhost:7777'' ''enclave_info.toml'' ''ias_root_ca_cert.pem'' NULL
     \<in> set (fst (main connect_fails_env)) \<and>
   suffix [Connect ''localhost:7777'' ''enclave_info.toml'' ''ias_root_ca_cert.pem'' NULL,
           Stderr ''[-] Failed to connect to the frontend service.\<newline>'',
           Close (Some NULL) 1,
           Stderr close_failed]
     (fst (main connect_fails_env)) \<and>
   snd (main connect_fails_env) = Exited (- 1)"
proof -
  have a: "teaclave_close_frontend_service connect_fails_env (Some NULL) =
             fst (close_frontend_service_spec [] NULL)"
    by (simp add: connect_fails_env_def echo_env_def close_frontend_service_spec_def)
  have b: "Connect ''localhost:7777'' ''enclave_info.toml'' ''ias_root_ca_cert.pem'' NULL
             \<in> set (fst (main connect_fails_env))"
    by (simp add: main_def main_connect_def connect_fails_env_def echo_env_def Let_def)
  show ?thesis
    using a b
      close_after_failed_connect
        [of connect_fails_env "[]" "''localhost:7777''" "''enclave_info.toml''"
            "''ias_root_ca_cert.pem''"]
    by blast
qed

text \<open>
  C2, at the input where the program departs from the claim: when the administrator
  cannot log in, \<open>goto bail\<close> (line 73) jumps over the declaration of
  \<open>frontend_client\<close> (line 92), and the close call (line 163) is made with the
  variable as it is, never initialised.
\<close>

theorem close_with_uninitialised_client:
  "main admin_login_fails_env =
     ([Stdout ''[+] Registering\<newline>'',
       Login ''admin'' ''teaclave'' [] 4086 1 [] 4086,
       Stderr ''[-] Failed to login.\<newline>'',
       Close None 1,
       Stderr ''[-] Failed to close the frontend service client.\<newline>''],
      Exited (- 1)) \<and>
   closed_handles (fst (main admin_login_fails_env)) = [None] \<and>
   connected_handles (fst (main admin_login_fails_env)) = []"
  by (simp add: main_def bail_def admin_login_fails_env_def echo_env_def Let_def emit_def
      admin_user_id_def admin_user_password_def BUFFER_SIZE_def close_failed_def)

subsection \<open>The echo round trip\<close>

lemma bind_echo_arguments:
  "bind_arguments echo_arguments (arguments echo_function) =
     Some [(''message'', ''Hello, Teaclave!'')]"
  by (simp add: echo_arguments_def echo_function_def bind_argument_def)

lemma execute_echo:
  "execute echo_function [(''message'', m)] = Inr m"
  by (simp add: execute_def echo_function_def)

lemma message_in_request: "sublist ''Hello, Teaclave!'' create_task_request_serialized"
proof -
  have \<open>create_task_request_serialized =
          (''{ "request" : "create_task", "function_id" : "%s", "function_arguments" : '' @
           ''"{'' @ [CHR 0x5C] @ ''"message'' @ [CHR 0x5C] @ ''": '' @ [CHR 0x5C] @ [CHR 0x22]) @
          ''Hello, Teaclave!'' @
          ([CHR 0x5C] @ ''"}"'' @
           '', "executor" : "builtin", "inputs_ownership" : [], "outputs_ownership" : [] }'')\<close>
    by (simp add: create_task_request_serialized_def function_arguments_literal_def)
  then show ?thesis
    unfolding sublist_def by blast
qed

lemma result_printed:
  assumes "Get_task_result p tid b n 0 res len \<in> set (fst (main e))"
  shows "Stdout (''[+] Task result in string: '' @ c_str res @ ''\<newline>'')
           \<in> set (fst (main e))"
proof -
  obtain q pre where
    m: "fst (main e) = pre @ fst (main_register_function e q)" and
    pre: "list_all (\<lambda>ev. kind_of ev \<in> {Print, Call_login, Call_user_register,
                                          Call_connect, Call_set_credential}) pre"
    using main_reaches_register [OF assms] by auto
  have ev: "Get_task_result p tid b n 0 res len \<in> set (fst (main_register_function e q))"
    using assms pre by (auto simp: m list_all_iff)
  have i: "Stdout (''[+] Task result in string: '' @ c_str res @ ''\<newline>'')
             \<in> set (fst (main_invoke_task e q t))"
    if "Get_task_result p tid b n 0 res len \<in> set (fst (main_invoke_task e q t))" for t
    using that
    by (auto simp: main_invoke_task_def Let_def fst_bail split: prod.splits if_splits)
  have c: "Stdout (''[+] Task result in string: '' @ c_str res @ ''\<newline>'')
             \<in> set (fst (main_create_task e q f l))"
    if "Get_task_result p tid b n 0 res len \<in> set (fst (main_create_task e q f l))" for f l
    using that i
    by (auto simp: main_create_task_def Let_def fst_bail split: prod.splits if_splits)
  have "Stdout (''[+] Task result in string: '' @ c_str res @ ''\<newline>'')
          \<in> set (fst (main_register_function e q))"
    using ev c
    by (auto simp: main_register_function_def Let_def fst_bail split: prod.splits if_splits)
  then show ?thesis
    by (simp add: m)
qed

text \<open>
  C8. On the platform as the specification describes it: when the echo function is
  registered with the argument specification of one argument \<open>message\<close> (default
  empty, overwrite allowed), a task is created for it with the argument \<open>message\<close>
  set to \<open>Hello, Teaclave!\<close>, and the task is invoked, then the result of the task is
  not ready before the task has finished, and once it has finished
  \<open>get_task_result\<close> yields a payload that contains \<open>Hello, Teaclave!\<close>. On the
  side of the client: the request that creates the task carries that message, and the
  payload of a successful \<open>teaclave_get_task_result\<close> call is printed on the output
  stream.
\<close>

theorem echo_round_trip:
  "(register_function pf echo_function = Inr (fid, pf1) \<and>
    create_task pf1 fid echo_arguments = Inr (tid, pf2) \<and>
    invoke_task pf2 tid = Inr pf3 \<longrightarrow>
      get_task_result pf2 tid = Inl ResultNotReady \<and>
      get_task_result pf3 tid = Inl ResultNotReady \<and>
      get_task_result (complete_task pf3 tid) tid = Inr ''Hello, Teaclave!'' \<and>
      (\<exists>payload. get_task_result (complete_task pf3 tid) tid = Inr payload \<and>
                  sublist ''Hello, Teaclave!'' payload)) \<and>
   sublist ''Hello, Teaclave!'' create_task_request_serialized \<and>
   (Get_task_result p t b n 0 res len \<in> set (fst (main e)) \<longrightarrow>
      Stdout (''[+] Task result in string: '' @ c_str res @ ''\<newline>'') \<in> set (fst (main e)))"
proof -
  have rt: "get_task_result pf2 tid = Inl ResultNotReady \<and>
            get_task_result pf3 tid = Inl ResultNotReady \<and>
            get_task_result (complete_task pf3 tid) tid = Inr ''Hello, Teaclave!''"
    if r: "register_function pf echo_function = Inr (fid, pf1)"
      and c: "create_task pf1 fid echo_arguments = Inr (tid, pf2)"
      and i: "invoke_task pf2 tid = Inr pf3"
  proof -
    have fid: "fid = length (registered_functions pf)"
      and pf1: "pf1 = pf \<lparr> registered_functions := registered_functions pf @ [echo_function] \<rparr>"
      using r by (auto simp: register_function_def split: if_splits)
    have d: "registered_functions pf1 ! fid = echo_function" "fid < length (registered_functions pf1)"
      by (simp_all add: fid pf1)
    have ok: "list_all (\<lambda>kv. fst kv \<in> set (map key (arguments echo_function))) echo_arguments"
      by (simp add: echo_arguments_def echo_function_def)
    have tid: "tid = length (tasks pf1)"
      and pf2: "pf2 = pf1 \<lparr> tasks := tasks pf1 @
                   [\<lparr> task_function = echo_function,
                      task_arguments = [(''message'', ''Hello, Teaclave!'')],
                      task_status = CREATED, task_result = Inl ResultNotReady \<rparr>] \<rparr>"
      using c d ok by (auto simp: create_task_def Let_def bind_echo_arguments)
    have pf3: "pf3 = pf2 \<lparr> tasks := (tasks pf2)
                   [tid := \<lparr> task_function = echo_function,
                             task_arguments = [(''message'', ''Hello, Teaclave!'')],
                             task_status = RUNNING, task_result = Inl ResultNotReady \<rparr>] \<rparr>"
      using i by (auto simp: invoke_task_def Let_def tid pf2 split: if_splits)
    show ?thesis
      by (simp add: get_task_result_def complete_task_def Let_def pf3 pf2 tid execute_echo)
  qed
  show ?thesis
    using rt message_in_request result_printed [of p t b n res len e] by auto
qed

theorem echo_round_trip_witness:
  "register_function empty_platform echo_function =
     Inr (0, \<lparr> registered_functions = [echo_function], tasks = [] \<rparr>) \<and>
   (\<exists>pf2 pf3.
      create_task \<lparr> registered_functions = [echo_function], tasks = [] \<rparr> 0 echo_arguments =
        Inr (0, pf2) \<and>
      invoke_task pf2 0 = Inr pf3 \<and>
      get_task_result pf3 0 = Inl ResultNotReady \<and>
      get_task_result (complete_task pf3 0) 0 = Inr ''Hello, Teaclave!'')"
proof -
  define pf1 where "pf1 = \<lparr> registered_functions = [echo_function], tasks = [] \<rparr>"
  define t where
    "t = \<lparr> task_function = echo_function,
           task_arguments = [(''message'', ''Hello, Teaclave!'')],
           task_status = CREATED, task_result = Inl ResultNotReady \<rparr>"
  define pf2 where "pf2 = \<lparr> registered_functions = [echo_function], tasks = [t] \<rparr>"
  define pf3 where
    "pf3 = \<lparr> registered_functions = [echo_function],
             tasks = [t \<lparr> task_status := RUNNING \<rparr>] \<rparr>"
  have r: "register_function empty_platform echo_function = Inr (0, pf1)"
    by (simp add: register_function_def empty_platform_def pf1_def echo_function_def)
  have c: "create_task pf1 0 echo_arguments = Inr (0, pf2)"
    by (simp add: create_task_def pf1_def pf2_def t_def Let_def bind_echo_arguments)
      (simp add: echo_arguments_def echo_function_def)
  have i: "invoke_task pf2 0 = Inr pf3"
    by (simp add: invoke_task_def pf2_def pf3_def t_def Let_def)
  show ?thesis
    using r c i echo_round_trip [of empty_platform 0 pf1 0 pf2 pf3]
    unfolding pf1_def by blast
qed

end
